theory Spec2Isabelle
  imports Main "HOL-Library.AList"
begin

section \<open>Python values\<close>

text \<open>
  The program is Python: host descriptors, facts payloads and outcome records are
  dictionaries of dynamically typed values. A value is one of the JSON-shaped Python
  values below (floats are left out: no payload the model inspects holds one, and the
  only float arithmetic of the source, the disk sizes of \<open>get_server_info\<close>, is kept
  abstract). A dictionary is an association list in insertion order with string keys;
  strings are lists of 8-bit characters, so the model covers text of code points below
  256.
\<close>

datatype pyval =
    VNone
  | VBool bool
  | VInt int
  | VStr string
  | VList "pyval list"
  | VDict "(string \<times> pyval) list"

type_synonym py_dict = "(string \<times> pyval) list"

text \<open>The exceptions the modelled code can raise; all of them derive from \<open>Exception\<close>.
  \<open>AnsibleError\<close> stands for any exception raised inside the automation library.\<close>

datatype exc =
    KeyError string
  | IndexError
  | TypeError
  | ValueError
  | AttributeError string
  | NameError string
  | FileNotFoundError string
  | AnsibleError string

text \<open>Truthiness, as \<open>if x:\<close> and \<open>x or y\<close> read it.\<close>

fun truthy :: "pyval \<Rightarrow> bool" where
  "truthy VNone = False"
| "truthy (VBool b) = b"
| "truthy (VInt n) = (n \<noteq> 0)"
| "truthy (VStr s) = (s \<noteq> [])"
| "truthy (VList xs) = (xs \<noteq> [])"
| "truthy (VDict d) = (d \<noteq> [])"

definition py_or :: "pyval \<Rightarrow> pyval \<Rightarrow> pyval" where
  "py_or a b = (if truthy a then a else b)"

text \<open>\<open>d.get(k)\<close>, \<open>d.get(k, default)\<close>, \<open>d[k]\<close> and \<open>k in d\<close> on a dictionary.\<close>

definition dict_get :: "py_dict \<Rightarrow> string \<Rightarrow> pyval" where
  "dict_get d k = (case map_of d k of Some v \<Rightarrow> v | None \<Rightarrow> VNone)"

definition dict_get_default :: "py_dict \<Rightarrow> string \<Rightarrow> pyval \<Rightarrow> pyval" where
  "dict_get_default d k dflt = (case map_of d k of Some v \<Rightarrow> v | None \<Rightarrow> dflt)"

definition dict_index :: "py_dict \<Rightarrow> string \<Rightarrow> exc + pyval" where
  "dict_index d k = (case map_of d k of Some v \<Rightarrow> Inr v | None \<Rightarrow> Inl (KeyError k))"

definition dict_has :: "py_dict \<Rightarrow> string \<Rightarrow> bool" where
  "dict_has d k = (map_of d k \<noteq> None)"

text \<open>\<open>v[k]\<close> on a value: a dictionary is indexed by key, a string key on anything else
  is a type error.\<close>

fun subscript :: "pyval \<Rightarrow> string \<Rightarrow> exc + pyval" where
  "subscript (VDict d) k = dict_index d k"
| "subscript v k = Inl TypeError"

subsection \<open>Strings\<close>

definition lower_ascii :: "char \<Rightarrow> char" where
  "lower_ascii c =
     (let n = (of_char c :: nat) in if 65 \<le> n \<and> n \<le> 90 then char_of (n + 32) else c)"

text \<open>\<open>str.isspace\<close> on one character of code point below 256.\<close>

definition isspace :: "char \<Rightarrow> bool" where
  "isspace c =
     (let n = (of_char c :: nat)
      in (9 \<le> n \<and> n \<le> 13) \<or> (28 \<le> n \<and> n \<le> 32) \<or> n = 133 \<or> n = 160)"

definition isdigit :: "char \<Rightarrow> bool" where
  "isdigit c = (let n = (of_char c :: nat) in 48 \<le> n \<and> n \<le> 57)"

definition strip :: "string \<Rightarrow> string" where
  "strip s = rev (dropWhile isspace (rev (dropWhile isspace s)))"

definition startswith :: "string \<Rightarrow> string \<Rightarrow> bool" where
  "startswith s p = (take (length p) s = p)"

definition endswith :: "string \<Rightarrow> string \<Rightarrow> bool" where
  "endswith s p = (length p \<le> length s \<and> drop (length s - length p) s = p)"

text \<open>\<open>s.replace(old, new)\<close>: every non-overlapping occurrence, left to right.\<close>

function py_replace :: "string \<Rightarrow> string \<Rightarrow> string \<Rightarrow> string" where
  "py_replace old new s =
     (if old = [] then new @ concat (map (\<lambda>c. c # new) s)
      else if s = [] then []
      else if startswith s old then new @ py_replace old new (drop (length old) s)
      else hd s # py_replace old new (tl s))"
  by pat_completeness auto
termination
  by (relation "measure (\<lambda>(old, new, s). length s)") auto

declare py_replace.simps [simp del]

subsection \<open>JSON encoding\<close>

text \<open>\<open>json.dumps\<close> with its default arguments (\<open>ensure_ascii\<close>, separators
  \<open>', '\<close> and \<open>': '\<close>) on the values above.\<close>

definition hex_digit :: "nat \<Rightarrow> char" where
  "hex_digit n = (if n < 10 then char_of (48 + n) else char_of (87 + n))"

definition json_char :: "char \<Rightarrow> string" where
  "json_char c =
     (let n = (of_char c :: nat) in
      if n = 34 then [CHR 0x5C, CHR 0x22]
      else if n = 92 then [CHR 0x5C, CHR 0x5C]
      else if n = 10 then [CHR 0x5C, CHR ''n'']
      else if n = 13 then [CHR 0x5C, CHR ''r'']
      else if n = 9 then [CHR 0x5C, CHR ''t'']
      else if n = 8 then [CHR 0x5C, CHR ''b'']
      else if n = 12 then [CHR 0x5C, CHR ''f'']
      else if 32 \<le> n \<and> n \<le> 126 then [c]
      else [CHR 0x5C, CHR ''u'', CHR ''0'', CHR ''0'',
            hex_digit (n div 16), hex_digit (n mod 16)])"

definition json_string :: "string \<Rightarrow> string" where
  "json_string s = [CHR 0x22] @ concat (map json_char s) @ [CHR 0x22]"

fun str_of_nat :: "nat \<Rightarrow> string" where
  "str_of_nat n =
     (if n < 10 then [char_of (48 + n)] else str_of_nat (n div 10) @ [char_of (48 + n mod 10)])"

declare str_of_nat.simps [simp del]

definition str_of_int :: "int \<Rightarrow> string" where
  "str_of_int i = (if i < 0 then CHR ''-'' # str_of_nat (nat (- i)) else str_of_nat (nat i))"

fun json_dumps :: "pyval \<Rightarrow> string"
  and json_list :: "pyval list \<Rightarrow> string"
  and json_items :: "(string \<times> pyval) list \<Rightarrow> string" where
  "json_dumps VNone = ''null''"
| "json_dumps (VBool b) = (if b then ''true'' else ''false'')"
| "json_dumps (VInt n) = str_of_int n"
| "json_dumps (VStr s) = json_string s"
| "json_dumps (VList xs) = ''['' @ json_list xs @ '']''"
| "json_dumps (VDict d) = ''{'' @ json_items d @ ''}''"
| "json_list [] = []"
| "json_list [x] = json_dumps x"
| "json_list (x # y # ys) = json_dumps x @ '', '' @ json_list (y # ys)"
| "json_items [] = []"
| "json_items [(k, v)] = json_string k @ '': '' @ json_dumps v"
| "json_items ((k, v) # p # ps) = json_string k @ '': '' @ json_dumps v @ '', '' @ json_items (p # ps)"

section \<open>Variable Safety Filter\<close>

definition ANSIBLE_DENY_VARIBLE_LISTS :: "string list" where
  "ANSIBLE_DENY_VARIBLE_LISTS = [
    ''vars'',
    ''hostvars'',
    ''ansible_ssh_pass'',
    ''ansible_password'',
    ''ansible_ssh_private_key_file'',
    ''ansible_private_key_file'',
    ''ansible_become_pass'',
    ''ansible_become_password'',
    ''ansible_enable_pass'',
    ''ansible_pass'',
    ''ansible_sudo_pass'',
    ''ansible_sudo_password'',
    ''ansible_su_pass'',
    ''ansible_su_password'',
    ''vault_password'']"

text \<open>
  The pattern of \<open>check_ansible_variable\<close> is
  \<^verbatim>\<open>^[\S\s]*?(?P<ansible>[\S\s]?(vars|hostvars|...)[\S\s]?)[\S\s]*$\<close> with \<open>re.I\<close>.
  \<open>[\S\s]\<close> is any character. The tail \<open>[\S\s]*$\<close> always matches, so the search
  succeeds at the shortest lazy prefix after which the group matches, and the group
  matches greedily: one character if there is one and a name follows it, otherwise no
  character and a name right here; the names are tried in the order of the list and
  compared without regard to (ASCII) case; the optional character after the name is
  taken whenever there is one. \<open>group_at s\<close> is the text of the group when it matches at
  the head of \<open>s\<close>, and \<open>regex_search\<close> tries the heads of the text from left to right.
  \<open>neutralise\<close> is the two \<open>replace\<close> statements of the function and \<open>clean_token\<close> its
  three trimming statements (\<open>strip\<close>, one leading \<open>=\<close> or \<open>{\<close>, one trailing \<open>}\<close>).
\<close>

fun ci_prefix :: "string \<Rightarrow> string \<Rightarrow> bool" where
  "ci_prefix [] s = True"
| "ci_prefix (p # ps) [] = False"
| "ci_prefix (p # ps) (c # cs) = (lower_ascii p = lower_ascii c \<and> ci_prefix ps cs)"

fun first_alt :: "string list \<Rightarrow> string \<Rightarrow> string option" where
  "first_alt [] s = None"
| "first_alt (a # as) s = (if ci_prefix a s then Some a else first_alt as s)"

definition group_at :: "string \<Rightarrow> string option" where
  "group_at s =
     (case (case s of
              [] \<Rightarrow> None
            | c # t \<Rightarrow> map_option (\<lambda>a. c # take (length a + 1) t)
                         (first_alt ANSIBLE_DENY_VARIBLE_LISTS t)) of
        Some g \<Rightarrow> Some g
      | None \<Rightarrow> map_option (\<lambda>a. take (length a + 1) s)
                  (first_alt ANSIBLE_DENY_VARIBLE_LISTS s))"

fun regex_search :: "string \<Rightarrow> string option" where
  "regex_search [] = group_at []"
| "regex_search (c # t) =
     (case group_at (c # t) of Some g \<Rightarrow> Some g | None \<Rightarrow> regex_search t)"

definition neutralise :: "string \<Rightarrow> string" where
  "neutralise content = py_replace ''vars_files:'' ''+++'' (py_replace ''vars:'' ''+++'' content)"

definition clean_token :: "string \<Rightarrow> string" where
  "clean_token g =
     (let info = strip g;
          info = (if startswith info ''='' \<or> startswith info ''{'' then drop 1 info else info);
          info = (if endswith info ''}'' then butlast info else info)
      in info)"

definition check_ansible_variable :: "string \<Rightarrow> bool \<times> string option" where
  "check_ansible_variable content =
     (case regex_search (neutralise content) of
        Some g \<Rightarrow>
          (let info = clean_token g
           in if info \<in> set ANSIBLE_DENY_VARIBLE_LISTS then (True, Some info)
              else (False, None))
      | None \<Rightarrow> (False, None))"

section \<open>Result Collector\<close>

text \<open>What the execution runtime hands to a callback: the host's name, the task's name and
  the raw result payload (\<open>result._host.name\<close>, \<open>result.task_name\<close>, \<open>result._result\<close>).\<close>

record task_result =
  host_name :: pyval
  task_name :: string
  payload :: pyval

text \<open>
  \<open>CallbackModule\<close> holds the three buckets and the global error. The engine also reads
  \<open>start_time\<close>, \<open>res\<close> and \<open>src\<close> from its callback; \<open>CallbackModule\<close> defines none of
  them, so they are optional here (\<open>None\<close>: the attribute does not exist, and reading it
  raises \<open>AttributeError\<close>). Times are integer ticks, and a line appended to \<open>res\<close> is
  kept as the delay and the notice it was rendered from.
\<close>

datatype notice = IllegalVariable "string option" | Fault exc

datatype res_line = ResLine int notice

record callback =
  host_ok :: "pyval list"
  host_unreachable :: "pyval list"
  host_failed :: "pyval list"
  error :: string
  start_time :: "int option"
  res :: "res_line list option"
  src :: "string option"

definition CallbackModule_init :: callback where
  "CallbackModule_init =
     \<lparr>host_ok = [], host_unreachable = [], host_failed = [], error = [],
      start_time = None, res = None, src = None\<rparr>"

definition outcome :: "task_result \<Rightarrow> bool \<Rightarrow> string \<Rightarrow> pyval" where
  "outcome result success msg =
     VDict [(''host'', host_name result), (''task_name'', VStr (task_name result)),
            (''result'', payload result), (''success'', VBool success), (''msg'', VStr msg)]"

definition v2_runner_on_unreachable :: "callback \<Rightarrow> task_result \<Rightarrow> callback" where
  "v2_runner_on_unreachable cb result =
     cb\<lparr>host_unreachable := host_unreachable cb @ [outcome result False ''unreachable'']\<rparr>"

definition v2_runner_on_ok :: "callback \<Rightarrow> task_result \<Rightarrow> callback" where
  "v2_runner_on_ok cb result =
     cb\<lparr>host_ok := host_ok cb @ [outcome result True ''ok'']\<rparr>"

definition v2_runner_on_failed :: "callback \<Rightarrow> task_result \<Rightarrow> callback" where
  "v2_runner_on_failed cb result =
     cb\<lparr>host_failed := host_failed cb @ [outcome result False ''failed'']\<rparr>"

definition v2_playbook_on_no_hosts_matched :: "callback \<Rightarrow> callback" where
  "v2_playbook_on_no_hosts_matched cb = cb\<lparr>error := ''skipping: No match hosts.''\<rparr>"

definition get_res :: "callback \<Rightarrow> pyval list \<times> pyval list \<times> pyval list \<times> string" where
  "get_res cb = (host_ok cb, host_failed cb, host_unreachable cb, error cb)"

text \<open>\<open>AnsibleAPI.get_result\<close>, on the callback the engine holds. Iterating the global
  error iterates a string, one character at a time; falling off the end returns \<open>None\<close>.\<close>

definition get_result :: "callback \<Rightarrow> string option" where
  "get_result cb =
     (case get_res cb of (ok, failed, unreach, err) \<Rightarrow>
        if ok \<noteq> [] then Some (hd (map json_dumps ok))
        else if failed \<noteq> [] then Some (hd (map json_dumps failed))
        else if unreach \<noteq> [] then Some (hd (map json_dumps unreach))
        else if err \<noteq> [] then Some (hd (map (\<lambda>i. json_dumps (VStr [i])) err))
        else None)"

section \<open>Host Record\<close>

definition ANSIBLE_CONNECTION_TYPE :: string where
  "ANSIBLE_CONNECTION_TYPE = ''paramiko''"

text \<open>\<open>int(s)\<close> on a string is Python's own parser and is taken as a parameter
  (\<open>None\<close>: \<open>ValueError\<close>); on the other values \<open>int\<close> is as below.\<close>

fun py_int :: "(string \<Rightarrow> int option) \<Rightarrow> pyval \<Rightarrow> exc + int" where
  "py_int int_of_str (VInt n) = Inr n"
| "py_int int_of_str (VBool b) = Inr (if b then 1 else 0)"
| "py_int int_of_str (VStr s) = (case int_of_str s of Some n \<Rightarrow> Inr n | None \<Rightarrow> Inl ValueError)"
| "py_int int_of_str v = Inl TypeError"

definition exc_bind :: "exc + 'a \<Rightarrow> ('a \<Rightarrow> exc + 'b) \<Rightarrow> exc + 'b" where
  "exc_bind m f = (case m of Inl e \<Rightarrow> Inl e | Inr x \<Rightarrow> f x)"

record host =
  name :: pyval
  vars :: py_dict

text \<open>
  Modelled from the spec: \<open>Host\<close>, the automation library's class that \<open>BaseHost\<close>
  extends, is not under src/. A HostRecord is a name and a variable mapping (spec,
  section 3), and storing a variable is last-writer-wins (spec, section 4.1). The base
  constructor takes the name and the port and records a port it is given as
  \<open>ansible_port\<close>, converted with \<open>int\<close>.
\<close>

definition set_variable :: "host \<Rightarrow> string \<Rightarrow> pyval \<Rightarrow> host" where
  "set_variable h k v = h\<lparr>vars := AList.update k v (vars h)\<rparr>"

definition Host_init :: "(string \<Rightarrow> int option) \<Rightarrow> pyval \<Rightarrow> pyval \<Rightarrow> exc + host" where
  "Host_init int_of_str nm port =
     (let h = \<lparr>name = nm, vars = []\<rparr>
      in if truthy port
         then exc_bind (py_int int_of_str port) (\<lambda>n. Inr (set_variable h ''ansible_port'' (VInt n)))
         else Inr h)"

text \<open>\<open>v.get(k, default)\<close> on a value that should be a dictionary.\<close>

fun py_get :: "pyval \<Rightarrow> string \<Rightarrow> pyval \<Rightarrow> exc + pyval" where
  "py_get (VDict d) k dflt = Inr (dict_get_default d k dflt)"
| "py_get v k dflt = Inl (AttributeError ''get'')"

text \<open>The \<open>become\<close> branch of \<open>__set_required_variables\<close>.\<close>

definition set_become_variables :: "pyval \<Rightarrow> host \<Rightarrow> exc + host" where
  "set_become_variables become h =
     (if truthy become then
        (let h = set_variable h ''ansible_become'' (VBool True)
         in exc_bind (py_get become ''method'' (VStr ''sudo'')) (\<lambda>method.
            let h = set_variable h ''ansible_become_method'' method;
                h = (if method = VStr ''sudo'' \<and> ANSIBLE_CONNECTION_TYPE = ''ssh''
                     then set_variable h ''ansible_ssh_pipelining'' (VBool False) else h)
            in exc_bind (py_get become ''user'' (VStr ''root'')) (\<lambda>user.
               let h = set_variable h ''ansible_become_user'' user
               in exc_bind (py_get become ''pass'' (VStr [])) (\<lambda>pass.
                  Inr (set_variable h ''ansible_become_pass'' pass)))))
      else Inr (set_variable h ''ansible_become'' (VBool False)))"

definition set_required_variables :: "py_dict \<Rightarrow> host \<Rightarrow> exc + host" where
  "set_required_variables host_data h =
     (let h = set_variable h ''ansible_connection'' (VStr ANSIBLE_CONNECTION_TYPE);
          h = (if ANSIBLE_CONNECTION_TYPE = ''ssh''
               then set_variable h ''ansible_ssh_args''
                      (VStr ''-C -o ControlMaster=auto -o ControlPersist=60s'')
               else h);
          h = set_variable h ''ansible_ssh_host_key_checking'' (VBool False)
      in exc_bind (dict_index host_data ''ip'') (\<lambda>ip.
         let h = set_variable h ''ansible_host'' ip
         in exc_bind (dict_index host_data ''port'') (\<lambda>port.
            let h = set_variable h ''ansible_port'' port;
                h = (if truthy (dict_get host_data ''username'')
                     then set_variable h ''ansible_user'' (dict_get host_data ''username'')
                     else h);
                h = (if truthy (dict_get host_data ''password'')
                     then set_variable h ''ansible_ssh_pass'' (dict_get host_data ''password'')
                     else h);
                h = (if truthy (dict_get host_data ''private_key'')
                     then set_variable h ''ansible_ssh_private_key_file''
                            (dict_get host_data ''private_key'')
                     else h);
                h = (if ANSIBLE_CONNECTION_TYPE = ''ssh''
                     then set_variable h ''ansible_ssh_pipelining'' (VBool True)
                     else h)
            in set_become_variables (dict_get_default host_data ''become'' (VBool False)) h)))"

definition set_extra_variables :: "py_dict \<Rightarrow> host \<Rightarrow> exc + host" where
  "set_extra_variables host_data h =
     (case dict_get_default host_data ''vars'' (VDict []) of
        VDict d \<Rightarrow> Inr (fold (\<lambda>(k, v) h. set_variable h k v) d h)
      | _ \<Rightarrow> Inl (AttributeError ''items''))"

definition BaseHost_init :: "(string \<Rightarrow> int option) \<Rightarrow> py_dict \<Rightarrow> exc + host" where
  "BaseHost_init int_of_str host_data =
     (let hostname = py_or (dict_get host_data ''hostname'') (dict_get host_data ''ip'');
          port = py_or (dict_get host_data ''port'') (VInt 22)
      in exc_bind (Host_init int_of_str hostname port) (\<lambda>h.
         exc_bind (set_required_variables host_data h) (\<lambda>h.
         set_extra_variables host_data h)))"

section \<open>Inventory Builder\<close>

text \<open>
  Values used as dictionary keys or set members: lists and dictionaries are unhashable
  (\<open>TypeError\<close>), and \<open>True\<close>/\<open>False\<close> are the same key as \<open>1\<close>/\<open>0\<close>. Keys are kept in
  the normal form \<open>py_key\<close>.
\<close>

fun hashable :: "pyval \<Rightarrow> bool" where
  "hashable (VList xs) = False"
| "hashable (VDict d) = False"
| "hashable v = True"

fun py_key :: "pyval \<Rightarrow> pyval" where
  "py_key (VBool b) = VInt (if b then 1 else 0)"
| "py_key v = v"

text \<open>\<open>for x in v\<close>: the elements of a list, the characters of a string, the keys of a
  dictionary; anything else is not iterable.\<close>

fun py_iter :: "pyval \<Rightarrow> exc + pyval list" where
  "py_iter (VList xs) = Inr xs"
| "py_iter (VStr s) = Inr (map (\<lambda>c. VStr [c]) s)"
| "py_iter (VDict d) = Inr (map (\<lambda>p. VStr (fst p)) d)"
| "py_iter v = Inl TypeError"

record inventory =
  host_list :: "py_dict list"
  hosts :: "(pyval \<times> host) list"
  groups :: "(string \<times> host list) list"

text \<open>
  Modelled from the spec: \<open>InventoryManager\<close>, its inventory data and \<open>Group\<close> belong to
  the automation library and are not under src/. Per the spec (sections 3 and 4.2) the
  Inventory owns a mapping from host name to HostRecord and a mapping from group name to
  the set of member hosts, the groups "all" and "ungrouped" always exist, a group unseen
  so far is created on demand, and a pattern resolves to a duplicate-free subset: "all"
  to every host, which is the members of the group "all", any other group name to that
  group's members, a host name to that host, anything else to nothing. A group's members
  are duplicate-free by host name (\<open>add_host\<close> leaves a host whose name is already a
  member out); a group name that is not a non-empty string is refused. Pattern syntax
  beyond plain names is not modelled.
\<close>

definition add_host :: "host list \<Rightarrow> host \<Rightarrow> exc + host list" where
  "add_host members h =
     (if \<not> hashable (name h) then Inl TypeError
      else if py_key (name h) \<in> set (map (\<lambda>m. py_key (name m)) members) then Inr members
      else Inr (members @ [h]))"

definition add_group :: "inventory \<Rightarrow> pyval \<Rightarrow> exc + inventory" where
  "add_group ivt grp =
     (case grp of
        VStr g \<Rightarrow>
          if g = [] then Inl (AnsibleError ''Invalid empty/false group name provided'')
          else if map_of (groups ivt) g \<noteq> None then Inr ivt
          else Inr (ivt\<lparr>groups := groups ivt @ [(g, [])]\<rparr>)
      | _ \<Rightarrow> Inl (AnsibleError ''Invalid group name supplied, expected a string''))"

definition get_hosts :: "inventory \<Rightarrow> string \<Rightarrow> host list" where
  "get_hosts ivt pattern =
     (case map_of (groups ivt) pattern of
        Some members \<Rightarrow> members
      | None \<Rightarrow> (case map_of (hosts ivt) (VStr pattern) of Some h \<Rightarrow> [h] | None \<Rightarrow> []))"

text \<open>\<open>BaseInventory\<close> itself. \<open>group.add_host(host)\<close> on a group of the inventory updates
  that group's entry; on \<open>None\<close> it is an \<open>AttributeError\<close>.\<close>

definition get_groups :: "inventory \<Rightarrow> (string \<times> host list) list" where
  "get_groups ivt = groups ivt"

definition get_group :: "inventory \<Rightarrow> string \<Rightarrow> host list option" where
  "get_group ivt nm = map_of (groups ivt) nm"

definition group_add_host :: "inventory \<Rightarrow> string \<Rightarrow> host \<Rightarrow> exc + inventory" where
  "group_add_host ivt g h =
     (case get_group ivt g of
        None \<Rightarrow> Inl (AttributeError ''add_host'')
      | Some members \<Rightarrow>
          exc_bind (add_host members h) (\<lambda>members'.
            Inr (ivt\<lparr>groups := AList.update g members' (groups ivt)\<rparr>)))"

text \<open>The body of the loop over \<open>groups_data\<close>, for one group name.\<close>

definition add_to_group :: "inventory \<Rightarrow> host \<Rightarrow> pyval \<Rightarrow> exc + inventory" where
  "add_to_group ivt h group_name =
     (if \<not> hashable group_name then Inl TypeError
      else case group_name of
        VStr g \<Rightarrow>
          (case get_group ivt g of
             None \<Rightarrow> exc_bind (add_group ivt group_name) (\<lambda>ivt. group_add_host ivt g h)
           | Some members \<Rightarrow> group_add_host ivt g h)
      | _ \<Rightarrow> exc_bind (add_group ivt group_name) (\<lambda>ivt. Inl (AttributeError ''add_host'')))"

fun add_to_groups :: "inventory \<Rightarrow> host \<Rightarrow> pyval list \<Rightarrow> exc + inventory" where
  "add_to_groups ivt h [] = Inr ivt"
| "add_to_groups ivt h (group_name # rest) =
     exc_bind (add_to_group ivt h group_name) (\<lambda>ivt. add_to_groups ivt h rest)"

text \<open>The body of the loop of \<open>parse_sources\<close>, for one descriptor.\<close>

definition parse_host :: "(string \<Rightarrow> int option) \<Rightarrow> inventory \<Rightarrow> py_dict \<Rightarrow> exc + inventory" where
  "parse_host int_of_str ivt host_data =
     exc_bind (BaseHost_init int_of_str host_data) (\<lambda>h.
     exc_bind (dict_index host_data ''hostname'') (\<lambda>key.
       if \<not> hashable key then Inl TypeError
       else
         let ivt = ivt\<lparr>hosts := AList.update (py_key key) h (hosts ivt)\<rparr>;
             groups_data = dict_get host_data ''groups''
         in exc_bind
              (if truthy groups_data
               then exc_bind (py_iter groups_data) (add_to_groups ivt h)
               else group_add_host ivt ''ungrouped'' h)
              (\<lambda>ivt. group_add_host ivt ''all'' h)))"

fun parse_hosts :: "(string \<Rightarrow> int option) \<Rightarrow> inventory \<Rightarrow> py_dict list \<Rightarrow> exc + inventory" where
  "parse_hosts int_of_str ivt [] = Inr ivt"
| "parse_hosts int_of_str ivt (host_data # rest) =
     exc_bind (parse_host int_of_str ivt host_data) (\<lambda>ivt. parse_hosts int_of_str ivt rest)"

definition parse_sources :: "(string \<Rightarrow> int option) \<Rightarrow> inventory \<Rightarrow> exc + inventory" where
  "parse_sources int_of_str ivt = parse_hosts int_of_str ivt (host_list ivt)"

definition BaseInventory_init ::
  "(string \<Rightarrow> int option) \<Rightarrow> py_dict list option \<Rightarrow> exc + inventory" where
  "BaseInventory_init int_of_str hl =
     parse_sources int_of_str
       \<lparr>host_list = (case hl of None \<Rightarrow> [] | Some l \<Rightarrow> l),
        hosts = [],
        groups = [(''all'', []), (''ungrouped'', [])]\<rparr>"

definition get_matched_hosts :: "inventory \<Rightarrow> string \<Rightarrow> host list" where
  "get_matched_hosts ivt pattern = get_hosts ivt pattern"

section \<open>Execution Engine\<close>

text \<open>
  The engine drives collaborators that are not part of the program: the file system, the
  play loader, the task-queue runtime and the playbook executor. Their behaviour in one
  run is a parameter, the record \<open>engine\<close>: each call either raises or returns, and a run
  reports a sequence of events to the callback before it returns or raises. What the
  program does to them is recorded as a list of effects, in order.
\<close>

record play_source =
  ps_hosts :: pyval
  ps_module :: string
  ps_args :: pyval

datatype cb_event =
    RunnerOk task_result
  | RunnerFailed task_result
  | RunnerUnreachable task_result
  | NoHostsMatched

datatype tqm = TaskQueueManager

text \<open>A playbook executor; its \<open>_tqm\<close> attribute may be \<open>None\<close>.\<close>

datatype executor = PlaybookExecutor "tqm option"

fun tqm_of :: "executor \<Rightarrow> tqm option" where
  "tqm_of (PlaybookExecutor t) = t"

datatype effect =
    TqmCreated
  | TqmRun play_source
  | TqmCleanup
  | RmTree
  | ExecutorCreated string
  | ExecutorRun string
  | SendMessage notice
  | CloseChannel
  | Traceback exc
  | Removed string

record engine =
  read_file :: "string \<Rightarrow> exc + string"
  play_load :: "play_source \<Rightarrow> exc option"
  tqm_new :: "exc option"
  tqm_run :: "play_source \<Rightarrow> cb_event list \<times> exc option"
  tqm_cleanup :: "exc option"
  executor_new :: "string \<Rightarrow> exc + executor"
  executor_run :: "string \<Rightarrow> cb_event list \<times> exc option"
  remove_file :: "string \<Rightarrow> exc option"
  clock :: int

record world =
  results_callback :: callback
  effects :: "effect list"

definition emit :: "effect \<Rightarrow> world \<Rightarrow> world" where
  "emit e w = w\<lparr>effects := effects w @ [e]\<rparr>"

fun deliver :: "callback \<Rightarrow> cb_event \<Rightarrow> callback" where
  "deliver cb (RunnerOk r) = v2_runner_on_ok cb r"
| "deliver cb (RunnerFailed r) = v2_runner_on_failed cb r"
| "deliver cb (RunnerUnreachable r) = v2_runner_on_unreachable cb r"
| "deliver cb NoHostsMatched = v2_playbook_on_no_hosts_matched cb"

definition deliver_all :: "cb_event list \<Rightarrow> world \<Rightarrow> world" where
  "deliver_all events w = w\<lparr>results_callback := foldl deliver (results_callback w) events\<rparr>"

text \<open>
  A statement runs on a state and either completes (\<open>None\<close>) or raises. In
  \<open>try: body except Exception as err: handler finally: fin\<close> the handler runs when the body
  raises, \<open>fin\<close> runs in every case, and an exception raised by \<open>fin\<close> replaces whatever
  was pending.
\<close>

definition try_except_finally ::
  "('s \<Rightarrow> exc option \<times> 's) \<Rightarrow> (exc \<Rightarrow> 's \<Rightarrow> exc option \<times> 's) \<Rightarrow> ('s \<Rightarrow> exc option \<times> 's)
   \<Rightarrow> 's \<Rightarrow> exc option \<times> 's" where
  "try_except_finally body handler fin s =
     (case body s of (r1, s1) \<Rightarrow>
      case (case r1 of None \<Rightarrow> (None, s1) | Some e \<Rightarrow> handler e s1) of (r2, s2) \<Rightarrow>
      case fin s2 of (r3, s3) \<Rightarrow>
        (case r3 of Some e \<Rightarrow> (Some e, s3) | None \<Rightarrow> (r2, s3)))"

text \<open>\<open>delay = round(time.time() - self.results_callback.start_time, 6)\<close> and
  \<open>self.results_callback.res.append(...)\<close>: both attributes must exist.\<close>

definition record_line :: "engine \<Rightarrow> notice \<Rightarrow> world \<Rightarrow> exc option \<times> world" where
  "record_line E n w =
     (case start_time (results_callback w) of
        None \<Rightarrow> (Some (AttributeError ''start_time''), w)
      | Some t0 \<Rightarrow>
          (case res (results_callback w) of
             None \<Rightarrow> (Some (AttributeError ''res''), w)
           | Some ls \<Rightarrow>
               (None, w\<lparr>results_callback :=
                         (results_callback w)\<lparr>res := Some (ls @ [ResLine (clock E - t0) n])\<rparr>\<rparr>)))"

text \<open>The \<open>except Exception as err\<close> block shared by \<open>run_playbook\<close>, \<open>run_modules\<close>,
  \<open>run_cmd\<close>, \<open>run_script\<close> and \<open>run_copy\<close>.\<close>

definition on_error :: "engine \<Rightarrow> exc \<Rightarrow> world \<Rightarrow> exc option \<times> world" where
  "on_error E err w =
     (case record_line E (Fault err) w of
        (Some e, w1) \<Rightarrow> (Some e, w1)
      | (None, w1) \<Rightarrow> (None, emit (SendMessage (Fault err)) w1))"

text \<open>The \<open>if group:\<close> part of their \<open>finally\<close> blocks.\<close>

definition close_channel :: "pyval \<Rightarrow> world \<Rightarrow> world" where
  "close_channel grp w = (if truthy grp then emit CloseChannel w else w)"

text \<open>\<open>run_module\<close>: the play is loaded before the \<open>try\<close>; the local \<open>tqm\<close> is part of
  the state of the three blocks.\<close>

definition module_try ::
  "engine \<Rightarrow> play_source \<Rightarrow> tqm option \<times> world \<Rightarrow> exc option \<times> tqm option \<times> world" where
  "module_try E source s =
     (case s of (tqm, w) \<Rightarrow>
        case tqm_new E of
          Some e \<Rightarrow> (Some e, (tqm, w))
        | None \<Rightarrow>
            (case tqm_run E source of (events, r) \<Rightarrow>
               (r, (Some TaskQueueManager,
                    deliver_all events (emit (TqmRun source) (emit TqmCreated w))))))"

definition module_except ::
  "exc \<Rightarrow> tqm option \<times> world \<Rightarrow> exc option \<times> tqm option \<times> world" where
  "module_except err s = (case s of (tqm, w) \<Rightarrow> (None, (tqm, emit (Traceback err) w)))"

definition module_finally ::
  "engine \<Rightarrow> tqm option \<times> world \<Rightarrow> exc option \<times> tqm option \<times> world" where
  "module_finally E s =
     (case s of (tqm, w) \<Rightarrow>
        case tqm of
          None \<Rightarrow> (None, (tqm, emit RmTree w))
        | Some t \<Rightarrow>
            (case tqm_cleanup E of
               Some e \<Rightarrow> (Some e, (tqm, emit TqmCleanup w))
             | None \<Rightarrow> (None, (tqm, emit RmTree (emit TqmCleanup w)))))"

definition run_module :: "engine \<Rightarrow> string \<Rightarrow> pyval \<Rightarrow> pyval \<Rightarrow> world \<Rightarrow> exc option \<times> world" where
  "run_module E module_name module_args pattern w =
     (let source = \<lparr>ps_hosts = pattern, ps_module = module_name, ps_args = module_args\<rparr>
      in case play_load E source of
           Some e \<Rightarrow> (Some e, w)
         | None \<Rightarrow>
             (case try_except_finally (module_try E source) module_except (module_finally E)
                     (None, w)
              of (r, (tqm, w')) \<Rightarrow> (r, w')))"

text \<open>\<open>run_playbook\<close>: the local \<open>playbook\<close> starts as \<open>None\<close> and is part of the state of
  the three blocks. In the rejection branch the last statement reads \<open>__dict__\<close> of a
  dictionary, which does not exist.\<close>

definition playbook_try ::
  "engine \<Rightarrow> string \<Rightarrow> executor option \<times> world \<Rightarrow> exc option \<times> executor option \<times> world" where
  "playbook_try E playbook_yml s =
     (case s of (playbook, w) \<Rightarrow>
        case read_file E playbook_yml of
          Inl e \<Rightarrow> (Some e, (playbook, w))
        | Inr playbook_content \<Rightarrow>
            (case check_ansible_variable playbook_content of (check, variable) \<Rightarrow>
               if check then
                 (case record_line E (IllegalVariable variable) w of
                    (Some e, w1) \<Rightarrow> (Some e, (playbook, w1))
                  | (None, w1) \<Rightarrow> (Some (AttributeError ''__dict__''), (playbook, w1)))
               else
                 (case executor_new E playbook_yml of
                    Inl e \<Rightarrow> (Some e, (playbook, w))
                  | Inr ex \<Rightarrow>
                      (let w1 = emit (ExecutorCreated playbook_yml) w
                       in case tqm_of ex of
                            None \<Rightarrow> (Some (AttributeError ''_stdout_callback''), (Some ex, w1))
                          | Some t \<Rightarrow>
                              (case executor_run E playbook_yml of (events, r) \<Rightarrow>
                                 (r, (Some ex,
                                      deliver_all events (emit (ExecutorRun playbook_yml) w1))))))))"

definition playbook_except ::
  "engine \<Rightarrow> exc \<Rightarrow> executor option \<times> world \<Rightarrow> exc option \<times> executor option \<times> world" where
  "playbook_except E err s =
     (case s of (playbook, w) \<Rightarrow> case on_error E err w of (r, w1) \<Rightarrow> (r, (playbook, w1)))"

definition playbook_finally ::
  "engine \<Rightarrow> pyval \<Rightarrow> executor option \<times> world \<Rightarrow> exc option \<times> executor option \<times> world" where
  "playbook_finally E grp s =
     (case s of (playbook, w) \<Rightarrow>
        let w1 = close_channel grp w
        in case playbook of
             None \<Rightarrow> (Some (AttributeError ''_tqm''), (playbook, w1))
           | Some ex \<Rightarrow>
               (case tqm_of ex of
                  None \<Rightarrow> (None, (playbook, w1))
                | Some t \<Rightarrow>
                    (case tqm_cleanup E of
                       Some e \<Rightarrow> (Some e, (playbook, emit TqmCleanup w1))
                     | None \<Rightarrow> (None, (playbook, emit TqmCleanup w1)))))"

definition run_playbook :: "engine \<Rightarrow> string \<Rightarrow> pyval \<Rightarrow> world \<Rightarrow> exc option \<times> world" where
  "run_playbook E playbook_yml grp w =
     (case try_except_finally (playbook_try E playbook_yml) (playbook_except E)
             (playbook_finally E grp) (None, w)
      of (r, (playbook, w')) \<Rightarrow> (r, w'))"

text \<open>The \<open>try\<close> block shared by \<open>run_modules\<close>, \<open>run_cmd\<close>, \<open>run_script\<close> and \<open>run_copy\<close>:
  the text is scanned, and only unflagged text reaches \<open>run_module\<close>.\<close>

definition scan_then_run ::
  "engine \<Rightarrow> string \<Rightarrow> string \<Rightarrow> pyval \<Rightarrow> world \<Rightarrow> exc option \<times> world" where
  "scan_then_run E module_name cmds pattern w =
     (case check_ansible_variable cmds of (check, variable) \<Rightarrow>
        if check then
          (case record_line E (IllegalVariable variable) w of
             (Some e, w1) \<Rightarrow> (Some e, w1)
           | (None, w1) \<Rightarrow> (None, emit (SendMessage (IllegalVariable variable)) w1))
        else run_module E module_name (VStr cmds) pattern w)"

definition run_modules ::
  "engine \<Rightarrow> string \<Rightarrow> string \<Rightarrow> pyval \<Rightarrow> pyval \<Rightarrow> world \<Rightarrow> exc option \<times> world" where
  "run_modules E cmds module_name pattern grp w =
     try_except_finally
       (scan_then_run E module_name cmds pattern)
       (on_error E)
       (\<lambda>w. if truthy grp then
               (let w1 = emit CloseChannel w
                in case res (results_callback w1) of
                     None \<Rightarrow> (Some (AttributeError ''res''), w1)
                   | Some ls \<Rightarrow> if ls \<noteq> [] then (Some (NameError ''save_res''), w1) else (None, w1))
             else (None, w))
       w"

definition run_cmd :: "engine \<Rightarrow> string \<Rightarrow> pyval \<Rightarrow> pyval \<Rightarrow> world \<Rightarrow> exc option \<times> world" where
  "run_cmd E cmds pattern grp w =
     try_except_finally
       (scan_then_run E ''shell'' cmds pattern)
       (on_error E)
       (\<lambda>w. (None, close_channel grp w))
       w"

definition run_script :: "engine \<Rightarrow> string \<Rightarrow> pyval \<Rightarrow> pyval \<Rightarrow> world \<Rightarrow> exc option \<times> world" where
  "run_script E cmds pattern grp w =
     try_except_finally
       (scan_then_run E ''script'' cmds pattern)
       (on_error E)
       (\<lambda>w. (None, close_channel grp w))
       w"

definition run_copy :: "engine \<Rightarrow> string \<Rightarrow> pyval \<Rightarrow> pyval \<Rightarrow> world \<Rightarrow> exc option \<times> world" where
  "run_copy E cmds pattern grp w =
     try_except_finally
       (scan_then_run E ''copy'' cmds pattern)
       (on_error E)
       (\<lambda>w. let w1 = close_channel grp w
             in case src (results_callback w1) of
                  None \<Rightarrow> (None, emit (Traceback (AttributeError ''src'')) w1)
                | Some path \<Rightarrow>
                    (case remove_file E path of
                       Some e \<Rightarrow> (None, emit (Traceback e) w1)
                     | None \<Rightarrow> (None, emit (Removed path) w1)))
       w"

section \<open>Facts Summarizer\<close>

text \<open>
  \<open>get_server_info\<close> converts strings to numbers and does float arithmetic on disk sizes.
  These library operations are parameters, the record \<open>pylib\<close>: the floats are an
  abstract type \<open>'f\<close>, \<open>round_quot a b\<close> is \<open>round(a / b)\<close> on integers, and \<open>container_str\<close>
  is \<open>str\<close> of a list or dictionary.
\<close>

record 'f pylib =
  parse_int :: "string \<Rightarrow> int option"
  round_quot :: "int \<Rightarrow> int \<Rightarrow> exc + int"
  container_str :: "pyval \<Rightarrow> string"
  float_of_str :: "string \<Rightarrow> 'f option"
  float_of_int :: "int \<Rightarrow> 'f"
  float_times :: "'f \<Rightarrow> 'f \<Rightarrow> 'f"
  float_plus :: "'f \<Rightarrow> 'f \<Rightarrow> 'f"
  float_round2 :: "'f \<Rightarrow> 'f"

datatype 'f num = NInt int | NFloat 'f

fun num_round2 :: "('f, 'x) pylib_scheme \<Rightarrow> 'f num \<Rightarrow> 'f num" where
  "num_round2 L (NInt n) = NInt n"
| "num_round2 L (NFloat x) = NFloat (float_round2 L x)"

fun num_plus :: "('f, 'x) pylib_scheme \<Rightarrow> 'f num \<Rightarrow> 'f num \<Rightarrow> 'f num" where
  "num_plus L (NInt a) (NInt b) = NInt (a + b)"
| "num_plus L (NInt a) (NFloat y) = NFloat (float_plus L (float_of_int L a) y)"
| "num_plus L (NFloat x) (NInt b) = NFloat (float_plus L x (float_of_int L b))"
| "num_plus L (NFloat x) (NFloat y) = NFloat (float_plus L x y)"

text \<open>\<open>str(v)\<close>, as \<open>'{}'.format(v)\<close> renders a value.\<close>

fun py_str :: "('f, 'x) pylib_scheme \<Rightarrow> pyval \<Rightarrow> string" where
  "py_str L VNone = ''None''"
| "py_str L (VBool b) = (if b then ''True'' else ''False'')"
| "py_str L (VInt n) = str_of_int n"
| "py_str L (VStr s) = s"
| "py_str L v = container_str L v"

text \<open>\<open>v[-1]\<close>.\<close>

fun last_item :: "pyval \<Rightarrow> exc + pyval" where
  "last_item (VList xs) = (if xs = [] then Inl IndexError else Inr (last xs))"
| "last_item (VStr s) = (if s = [] then Inl IndexError else Inr (VStr [last s]))"
| "last_item (VDict d) = Inl (KeyError ''-1'')"
| "last_item v = Inl TypeError"

text \<open>\<open>x in v\<close> for a one-character string \<open>x\<close>.\<close>

fun py_contains :: "pyval \<Rightarrow> char \<Rightarrow> exc + bool" where
  "py_contains (VStr s) c = Inr (c \<in> set s)"
| "py_contains (VList xs) c = Inr (VStr [c] \<in> set xs)"
| "py_contains (VDict d) c = Inr (dict_has d [c])"
| "py_contains v c = Inl TypeError"

text \<open>\<open>s.rindex(c)\<close> on a string that holds \<open>c\<close>, and the slice \<open>s[0:e]\<close> for an end that
  may be negative.\<close>

definition rindex :: "string \<Rightarrow> char \<Rightarrow> nat" where
  "rindex s c = length s - 1 - length (takeWhile (\<lambda>x. x \<noteq> c) (rev s))"

definition slice_to :: "string \<Rightarrow> int \<Rightarrow> string" where
  "slice_to s e = (if e < 0 then take (nat (int (length s) + e)) s else take (nat e) s)"

text \<open>\<open>float(v['size'][0: v['size'].rindex(c) - 1])\<close> once \<open>c in v['size']\<close> holds.\<close>

fun size_before :: "('f, 'x) pylib_scheme \<Rightarrow> pyval \<Rightarrow> char \<Rightarrow> exc + 'f" where
  "size_before L (VStr s) c =
     (case float_of_str L (slice_to s (int (rindex s c) - 1)) of
        Some x \<Rightarrow> Inr x
      | None \<Rightarrow> Inl ValueError)"
| "size_before L v c = Inl (AttributeError ''rindex'')"

text \<open>The loop over \<open>ansible_devices\<close>: the state is \<open>(info['disk_total'], disk_size)\<close>.\<close>

definition disk_step ::
  "('f, 'x) pylib_scheme \<Rightarrow> 'f num \<times> 'f num \<Rightarrow> string \<times> pyval \<Rightarrow> exc + 'f num \<times> 'f num" where
  "disk_step L st kv =
     (case st of (disk_total, disk_size) \<Rightarrow>
      case kv of (k, v) \<Rightarrow>
        if take 2 k \<in> set [''sd'', ''hd'', ''ss'', ''vd''] then
          exc_bind (subscript v ''size'') (\<lambda>sz.
          exc_bind (py_contains sz CHR ''G'') (\<lambda>has_g.
          exc_bind
            (if has_g then exc_bind (size_before L sz CHR ''G'') (\<lambda>x. Inr (NFloat x))
             else exc_bind (py_contains sz CHR ''T'') (\<lambda>has_t.
                  if has_t
                  then exc_bind (size_before L sz CHR ''T'')
                         (\<lambda>x. Inr (NFloat (float_times L x (float_of_int L 1024))))
                  else Inr disk_size))
            (\<lambda>disk_size. Inr (num_plus L disk_total (num_round2 L disk_size), disk_size))))
        else Inr (disk_total, disk_size))"

fun disk_loop ::
  "('f, 'x) pylib_scheme \<Rightarrow> 'f num \<times> 'f num \<Rightarrow> (string \<times> pyval) list \<Rightarrow> exc + 'f num \<times> 'f num" where
  "disk_loop L st [] = Inr st"
| "disk_loop L st (kv # rest) = exc_bind (disk_step L st kv) (\<lambda>st. disk_loop L st rest)"

text \<open>\<open>d.items()\<close> on a value that should be a dictionary.\<close>

fun py_items :: "pyval \<Rightarrow> exc + (string \<times> pyval) list" where
  "py_items (VDict d) = Inr d"
| "py_items v = Inl (AttributeError ''items'')"

definition filesystem_entry :: "pyval \<Rightarrow> exc + py_dict" where
  "filesystem_entry filesystem =
     exc_bind (subscript filesystem ''mount'') (\<lambda>mount.
     exc_bind (subscript filesystem ''size_total'') (\<lambda>size_total.
     exc_bind (subscript filesystem ''size_available'') (\<lambda>size_available.
     exc_bind (subscript filesystem ''fstype'') (\<lambda>fstype.
       Inr [(''mount'', mount), (''size_total'', size_total),
            (''size_available'', size_available), (''fstype'', fstype)]))))"

fun filesystems_loop :: "pyval list \<Rightarrow> exc + py_dict list" where
  "filesystems_loop [] = Inr []"
| "filesystems_loop (f # fs) =
     exc_bind (filesystem_entry f) (\<lambda>tmp.
     exc_bind (filesystems_loop fs) (\<lambda>more. Inr (tmp # more)))"

text \<open>\<open>re.match(r"^(eth|bond|bind|eno|ens|em|ib)\d+?", interface)\<close>: one of the prefixes,
  then a digit.\<close>

definition interface_re :: "string \<Rightarrow> bool" where
  "interface_re s =
     list_ex (\<lambda>p. startswith s p \<and> (case drop (length p) s of [] \<Rightarrow> False | c # cs \<Rightarrow> isdigit c))
       [''eth'', ''bond'', ''bind'', ''eno'', ''ens'', ''em'', ''ib'']"

definition interface_entry :: "pyval \<Rightarrow> string \<Rightarrow> exc + py_dict" where
  "interface_entry facts interface =
     exc_bind (subscript facts (''ansible_'' @ interface)) (\<lambda>card.
     exc_bind (py_get card ''device'' VNone) (\<lambda>device.
     exc_bind (py_get card ''macaddress'' VNone) (\<lambda>macaddress.
     exc_bind (py_get card ''ipv4'' (VStr ''unknown'')) (\<lambda>ipv4.
     exc_bind (py_get card ''ipv4_secondaries'' (VStr ''unknown'')) (\<lambda>ipv4_secondaries.
     exc_bind (py_get card ''ipv6'' (VStr ''unknown'')) (\<lambda>ipv6.
     exc_bind (py_get card ''type'' VNone) (\<lambda>model.
     exc_bind (py_get card ''mtu'' VNone) (\<lambda>mtu.
     exc_bind (py_get card ''active'' VNone) (\<lambda>active.
     exc_bind (py_get card ''speed'' VNone) (\<lambda>speed.
       Inr [(''network_card_name'', device),
            (''network_card_mac'', macaddress),
            (''network_card_ipv4'', ipv4),
            (''network_card_ipv4_secondaries'', ipv4_secondaries),
            (''network_card_ipv6'', ipv6),
            (''network_card_model'', model),
            (''network_card_mtu'', mtu),
            (''network_card_status'', active),
            (''network_card_speed'', speed)]))))))))))"

fun interfaces_loop :: "pyval \<Rightarrow> pyval list \<Rightarrow> exc + py_dict list" where
  "interfaces_loop facts [] = Inr []"
| "interfaces_loop facts (VStr s # rest) =
     (if interface_re s \<or> s = ''lo''
      then exc_bind (interface_entry facts s) (\<lambda>tmp.
           exc_bind (interfaces_loop facts rest) (\<lambda>more. Inr (tmp # more)))
      else interfaces_loop facts rest)"
| "interfaces_loop facts (v # rest) = Inl TypeError"

record 'f server_info =
  host :: pyval
  hostname :: pyval
  cpu_model :: pyval
  cpu_number :: int
  vcpu_number :: int
  kernel :: pyval
  system :: string
  server_model :: pyval
  ram_total :: int
  swap_total :: int
  disk_total :: "'f num"
  filesystems :: "py_dict list"
  interfaces :: "py_dict list"

text \<open>\<open>i['result']['ansible_facts'][k]\<close>.\<close>

definition fact :: "pyval \<Rightarrow> string \<Rightarrow> exc + pyval" where
  "fact i k =
     exc_bind (subscript i ''result'') (\<lambda>r.
     exc_bind (subscript r ''ansible_facts'') (\<lambda>facts. subscript facts k))"

text \<open>The body of the loop over the ok bucket, for one record \<open>i\<close>.\<close>

definition summarize :: "('f, 'x) pylib_scheme \<Rightarrow> pyval \<Rightarrow> exc + 'f server_info" where
  "summarize L i =
     exc_bind (subscript i ''host'') (\<lambda>host.
     exc_bind (fact i ''ansible_hostname'') (\<lambda>hostname.
     exc_bind (exc_bind (fact i ''ansible_processor'') last_item) (\<lambda>cpu_model.
     exc_bind (exc_bind (fact i ''ansible_processor_count'') (py_int (parse_int L))) (\<lambda>cpu_number.
     exc_bind (exc_bind (fact i ''ansible_processor_vcpus'') (py_int (parse_int L))) (\<lambda>vcpu_number.
     exc_bind (fact i ''ansible_kernel'') (\<lambda>kernel.
     exc_bind (fact i ''ansible_distribution'') (\<lambda>distribution.
     exc_bind (fact i ''ansible_distribution_version'') (\<lambda>distribution_version.
     exc_bind (fact i ''ansible_userspace_architecture'') (\<lambda>architecture.
     exc_bind (fact i ''ansible_product_name'') (\<lambda>server_model.
     exc_bind (exc_bind (exc_bind (fact i ''ansible_memtotal_mb'') (py_int (parse_int L)))
                 (\<lambda>n. round_quot L n 1024)) (\<lambda>ram_total.
     exc_bind (exc_bind (exc_bind (fact i ''ansible_swaptotal_mb'') (py_int (parse_int L)))
                 (\<lambda>n. round_quot L n 1024)) (\<lambda>swap_total.
     exc_bind (exc_bind (exc_bind (fact i ''ansible_devices'') py_items)
                 (disk_loop L (NInt 0, NInt 0))) (\<lambda>disks.
     exc_bind (exc_bind (exc_bind (fact i ''ansible_mounts'') py_iter) filesystems_loop)
       (\<lambda>filesystems.
     exc_bind (fact i ''ansible_interfaces'') (\<lambda>interfaces.
     exc_bind (exc_bind (subscript i ''result'') (\<lambda>r. subscript r ''ansible_facts'')) (\<lambda>facts.
     exc_bind (exc_bind (py_iter interfaces) (interfaces_loop facts)) (\<lambda>cards.
       Inr \<lparr>host = host, hostname = hostname, cpu_model = cpu_model,
            cpu_number = cpu_number, vcpu_number = vcpu_number, kernel = kernel,
            system = py_str L distribution @ '' '' @ py_str L distribution_version @ '' ''
                       @ py_str L architecture,
            server_model = server_model, ram_total = ram_total, swap_total = swap_total,
            disk_total = fst disks, filesystems = filesystems,
            interfaces = cards\<rparr>)))))))))))))))))"

fun summarize_all :: "('f, 'x) pylib_scheme \<Rightarrow> pyval list \<Rightarrow> exc + 'f server_info list" where
  "summarize_all L [] = Inr []"
| "summarize_all L (i # rest) =
     exc_bind (summarize L i) (\<lambda>info.
     exc_bind (summarize_all L rest) (\<lambda>infos. Inr (info # infos)))"

definition get_server_info ::
  "('f, 'x) pylib_scheme \<Rightarrow> engine \<Rightarrow> pyval \<Rightarrow> world
   \<Rightarrow> (exc + 'f server_info list \<times> pyval list \<times> pyval list \<times> string) \<times> world" where
  "get_server_info L E pattern w =
     (case run_module E ''setup'' (VStr []) pattern w of
        (Some e, w') \<Rightarrow> (Inl e, w')
      | (None, w') \<Rightarrow>
          (case get_res (results_callback w') of (ok, failed, unreach, err) \<Rightarrow>
             (case summarize_all L ok of
                Inl e \<Rightarrow> (Inl e, w')
              | Inr infos \<Rightarrow> (Inr (infos, failed, unreach, err), w'))))"

section \<open>Transport glue\<close>

text \<open>One round of \<open>websocket_endpoint\<close>: a received JSON object \<open>data\<close> is turned into a
  one-host inventory, the command is run with the \<open>shell\<close> module, and the first result
  is sent back.\<close>

definition hostdat :: "py_dict \<Rightarrow> py_dict" where
  "hostdat data =
     [(''hostname'', dict_get_default data ''hostname'' (VStr ''test'')),
      (''ip'', dict_get_default data ''host'' (VStr ''test'')),
      (''port'', dict_get_default data ''port'' (VInt 22)),
      (''password'', dict_get_default data ''pass'' (VInt 22)),
      (''groups'', VList [VStr ''gituwen'', dict_get_default data ''hostname'' (VStr ''test'')])]"

definition websocket_round ::
  "(string \<Rightarrow> int option) \<Rightarrow> engine \<Rightarrow> py_dict \<Rightarrow> exc option \<times> string option \<times> world" where
  "websocket_round int_of_str E data =
     (let w = \<lparr>results_callback = CallbackModule_init, effects = []\<rparr>
      in case BaseInventory_init int_of_str (Some [hostdat data]) of
           Inl e \<Rightarrow> (Some e, None, w)
         | Inr inventory \<Rightarrow>
             (case run_module E ''shell'' (dict_get_default data ''cmd'' (VStr ''ls -lha /tmp''))
                     (dict_get_default data ''hostname'' (VStr ''test'')) w of
                (Some e, w') \<Rightarrow> (Some e, None, w')
              | (None, w') \<Rightarrow> (None, get_result (results_callback w'), w')))"

section \<open>Vocabulary of the properties\<close>

text \<open>The name \<open>BaseHost\<close> gives to a descriptor: its hostname, or its ip when the
  hostname is missing or empty.\<close>

definition descriptor_name :: "py_dict \<Rightarrow> pyval" where
  "descriptor_name host_data = py_or (dict_get host_data ''hostname'') (dict_get host_data ''ip'')"

text \<open>Group members after a host is added: a host whose name is already a member's is
  left out. While a host is being filed, group "all" holds the earlier hosts, before or
  after that addition.\<close>

definition joined :: "host list \<Rightarrow> host \<Rightarrow> host list" where
  "joined ms h = (if py_key (name h) \<in> set (map (\<lambda>m. py_key (name m)) ms) then ms else ms @ [h])"

definition filing :: "host list \<Rightarrow> host \<Rightarrow> inventory \<Rightarrow> bool" where
  "filing ms h ivt =
     (map_of (groups ivt) ''all'' = Some ms \<or> map_of (groups ivt) ''all'' = Some (joined ms h))"

text \<open>The descriptors that give a name for the first time, in the order given.\<close>

fun first_of_name :: "py_dict list \<Rightarrow> py_dict list" where
  "first_of_name [] = []"
| "first_of_name (d # ds) =
     d # filter (\<lambda>e. py_key (descriptor_name e) \<noteq> py_key (descriptor_name d)) (first_of_name ds)"

text \<open>Effects that start remote execution, effects that tear a run down, and the
  sub-list of a world's effects that satisfy a predicate.\<close>

fun is_dispatch :: "effect \<Rightarrow> bool" where
  "is_dispatch (TqmRun s) = True"
| "is_dispatch (ExecutorRun p) = True"
| "is_dispatch e = False"

fun is_teardown :: "effect \<Rightarrow> bool" where
  "is_teardown TqmCleanup = True"
| "is_teardown RmTree = True"
| "is_teardown e = False"

definition kept :: "(effect \<Rightarrow> bool) \<Rightarrow> world \<Rightarrow> effect list" where
  "kept P w = filter P (effects w)"

definition dispatched :: "world \<Rightarrow> effect list" where
  "dispatched w = kept is_dispatch w"

definition torn_down :: "world \<Rightarrow> effect list" where
  "torn_down w = kept is_teardown w"

text \<open>A text mentions a deny-listed name when one of the names matches, without regard to
  case, at some position; \<open>clear_before n s\<close> says that none matches at the first \<open>n\<close>
  positions of \<open>s\<close>. A token is delimited by what \<open>check_ansible_variable\<close> trims:
  white space, one leading \<open>=\<close> or \<open>{\<close>, one trailing \<open>}\<close>.\<close>

fun mentions_denied :: "string \<Rightarrow> bool" where
  "mentions_denied [] = False"
| "mentions_denied (c # t) =
     (first_alt ANSIBLE_DENY_VARIBLE_LISTS (c # t) \<noteq> None \<or> mentions_denied t)"

fun clear_before :: "nat \<Rightarrow> string \<Rightarrow> bool" where
  "clear_before 0 s = True"
| "clear_before (Suc n) [] = True"
| "clear_before (Suc n) (c # t) =
     (first_alt ANSIBLE_DENY_VARIBLE_LISTS (c # t) = None \<and> clear_before n t)"

definition opens_token :: "char \<Rightarrow> bool" where
  "opens_token c = (isspace c \<or> c = CHR ''='' \<or> c = CHR ''{'')"

definition closes_token :: "char \<Rightarrow> bool" where
  "closes_token c = (isspace c \<or> c = CHR ''}'')"

text \<open>A call returned rather than raised.\<close>

definition built :: "exc + 'a \<Rightarrow> bool" where
  "built r = (case r of Inl e \<Rightarrow> False | Inr x \<Rightarrow> True)"

section \<open>Example inputs\<close>

text \<open>Concrete collaborators and inputs at which the theorems below are evaluated.\<close>

definition fresh_world :: world where
  "fresh_world = \<lparr>results_callback = CallbackModule_init, effects = []\<rparr>"

text \<open>A callback that also carries the attributes the engine reads.\<close>

definition logging_world :: world where
  "logging_world =
     \<lparr>results_callback = CallbackModule_init\<lparr>start_time := Some 0, res := Some []\<rparr>,
      effects = []\<rparr>"

text \<open>An engine whose collaborators all succeed and report nothing; no file exists.\<close>

definition quiet_engine :: engine where
  "quiet_engine =
     \<lparr>read_file = (\<lambda>p. Inl (FileNotFoundError p)),
      play_load = (\<lambda>s. None),
      tqm_new = None,
      tqm_run = (\<lambda>s. ([], None)),
      tqm_cleanup = None,
      executor_new = (\<lambda>p. Inr (PlaybookExecutor (Some TaskQueueManager))),
      executor_run = (\<lambda>p. ([], None)),
      remove_file = (\<lambda>p. None),
      clock = 0\<rparr>"

definition leaking_playbook :: string where
  "leaking_playbook = ''- debug: msg={{ ansible_ssh_pass }}''"

definition plain_playbook :: string where
  "plain_playbook = ''- debug: msg=hi''"

text \<open>A facts payload that has every field \<open>get_server_info\<close> reads before the product
  name, and no \<open>ansible_product_name\<close>.\<close>

definition facts_without_product_name :: task_result where
  "facts_without_product_name =
     \<lparr>host_name = VStr ''git'', task_name = ''setup'',
      payload = VDict [(''ansible_facts'', VDict [
        (''ansible_hostname'', VStr ''git''),
        (''ansible_processor'', VList [VStr ''0'', VStr ''GenuineIntel'']),
        (''ansible_processor_count'', VInt 1),
        (''ansible_processor_vcpus'', VInt 2),
        (''ansible_kernel'', VStr ''5.10.0''),
        (''ansible_distribution'', VStr ''Debian''),
        (''ansible_distribution_version'', VStr ''11''),
        (''ansible_userspace_architecture'', VStr ''x86_64''),
        (''ansible_memtotal_mb'', VInt 2048),
        (''ansible_swaptotal_mb'', VInt 0),
        (''ansible_devices'', VDict []),
        (''ansible_mounts'', VList []),
        (''ansible_interfaces'', VList [])])]\<rparr>"

text \<open>The two descriptors of the program's own demonstration, a descriptor whose extra
  variables name the connection variables, and a command that reads a stored password.\<close>

definition git_host :: py_dict where
  "git_host =
     [(''hostname'', VStr ''git''), (''ip'', VStr ''192.168.5.2''), (''port'', VInt 22),
      (''username'', VStr ''root''), (''password'', VStr ''@23123''),
      (''become'', VDict [(''method'', VStr ''sudo''), (''user'', VStr ''root''), (''pass'', VStr ''11'')]),
      (''groups'', VList [VStr ''gituwen'', VStr ''test'']),
      (''vars'', VDict [(''love'', VStr ''yes'')])]"

definition k8s_host :: py_dict where
  "k8s_host =
     [(''hostname'', VStr ''k8s''), (''ip'', VStr ''192.168.55.2''), (''port'', VInt 22),
      (''username'', VStr ''root''), (''password'', VStr ''123123''),
      (''become'', VDict [(''method'', VStr ''sudo''), (''user'', VStr ''root''), (''pass'', VStr ''@123123'')]),
      (''groups'', VList [VStr ''gituwen'', VStr ''test'']),
      (''vars'', VDict [(''love'', VStr ''yes'')])]"

definition shadowing_host :: py_dict where
  "shadowing_host =
     [(''hostname'', VStr ''git''), (''ip'', VStr ''192.168.5.2''), (''port'', VInt 22),
      (''vars'', VDict [(''ansible_host'', VStr ''10.6.6.6''), (''ansible_port'', VInt 2222)])]"

text \<open>A string-to-integer parser that accepts nothing; the examples hold no port strings.\<close>

definition no_int :: "string \<Rightarrow> int option" where
  "no_int s = None"

definition leaking_command :: string where
  "leaking_command = ''echo {{ ansible_ssh_pass }}''"

section \<open>Properties\<close>

subsection \<open>Result Collector and first result\<close>

lemma get_result_ok:
  "host_ok cb = r # rs \<Longrightarrow> get_result cb = Some (json_dumps r)"
  by (simp add: get_result_def get_res_def)

lemma get_result_failed:
  "host_ok cb = [] \<Longrightarrow> host_failed cb = r # rs \<Longrightarrow> get_result cb = Some (json_dumps r)"
  by (simp add: get_result_def get_res_def)

lemma get_result_unreachable:
  "host_ok cb = [] \<Longrightarrow> host_failed cb = [] \<Longrightarrow> host_unreachable cb = r # rs
   \<Longrightarrow> get_result cb = Some (json_dumps r)"
  by (simp add: get_result_def get_res_def)

lemma get_result_error:
  "host_ok cb = [] \<Longrightarrow> host_failed cb = [] \<Longrightarrow> host_unreachable cb = [] \<Longrightarrow> error cb = c # cs
   \<Longrightarrow> get_result cb = Some (json_dumps (VStr [c]))"
  by (simp add: get_result_def get_res_def)

text \<open>
  C6. With the three buckets empty, \<open>get_result\<close> does not return the JSON encoding of
  the global error: it iterates the error string and returns the encoding of its first
  character. After "no hosts matched" the result is the three characters \<open>"s"\<close>, not the
  encoding of \<open>skipping: No match hosts.\<close>.
\<close>

theorem get_result_no_hosts_matched:
  "get_result (v2_playbook_on_no_hosts_matched CallbackModule_init) = Some (json_dumps (VStr ''s''))
   \<and> json_dumps (VStr ''s'') = [CHR 0x22, CHR ''s'', CHR 0x22]
   \<and> get_result (v2_playbook_on_no_hosts_matched CallbackModule_init)
       \<noteq> Some (json_dumps (VStr (error (v2_playbook_on_no_hosts_matched CallbackModule_init))))"
  by (simp add: get_result_def get_res_def v2_playbook_on_no_hosts_matched_def
      CallbackModule_init_def json_string_def json_char_def)

text \<open>
  C10. When the three buckets and the global error are all empty, \<open>get_result\<close> returns
  \<open>None\<close>.
\<close>

theorem get_result_nothing_recorded:
  assumes "host_ok cb = []" and "host_failed cb = []" and "host_unreachable cb = []"
    and "error cb = []"
  shows "get_result cb = None"
  using assms by (simp add: get_result_def get_res_def)

theorem get_result_nothing_recorded_witness:
  "get_result CallbackModule_init = None"
  using get_result_nothing_recorded [of CallbackModule_init]
  by (simp add: CallbackModule_init_def)

text \<open>The endpoint sends what \<open>get_result\<close> returns: a round whose run records nothing
  sends \<open>None\<close>.\<close>

lemma websocket_round_null_response:
  assumes "BaseInventory_init ios (Some [hostdat data]) = Inr ivt"
    and "run_module E ''shell'' (dict_get_default data ''cmd'' (VStr ''ls -lha /tmp''))
           (dict_get_default data ''hostname'' (VStr ''test''))
           \<lparr>results_callback = CallbackModule_init, effects = []\<rparr> = (None, w')"
    and "host_ok (results_callback w') = []" and "host_failed (results_callback w') = []"
    and "host_unreachable (results_callback w') = []" and "error (results_callback w') = []"
  shows "websocket_round ios E data = (None, None, w')"
  using assms by (simp add: websocket_round_def get_result_def get_res_def)

subsection \<open>Teardown and propagation in the playbook path\<close>

text \<open>
  C1. An exception does propagate out of \<open>run_playbook\<close>: when the playbook file is
  missing, the local \<open>playbook\<close> is still \<open>None\<close> in the \<open>finally\<close> block, and reading
  \<open>playbook._tqm\<close> there raises \<open>AttributeError\<close>, which the caller receives.
\<close>

theorem run_playbook_missing_file_raises:
  "fst (run_playbook quiet_engine ''./hello.yml'' VNone fresh_world) = Some (AttributeError ''_tqm'')
   \<and> fst (run_playbook quiet_engine ''./hello.yml'' VNone logging_world)
       = Some (AttributeError ''_tqm'')"
  by (simp add: run_playbook_def playbook_try_def playbook_except_def playbook_finally_def
      try_except_finally_def quiet_engine_def fresh_world_def logging_world_def on_error_def
      record_line_def CallbackModule_init_def close_channel_def emit_def)

text \<open>
  C2. Teardown in \<open>run_playbook\<close> is not guarded against an executor that was never
  created, and it never removes the scratch directory: on a playbook the filter rejects
  the \<open>finally\<close> block itself raises and releases nothing, and on a playbook that runs to
  completion the only teardown effect is the runtime's cleanup.
\<close>

theorem run_playbook_teardown:
  "run_playbook (quiet_engine\<lparr>read_file := (\<lambda>p. Inr leaking_playbook)\<rparr>) ''./hello.yml'' VNone
     fresh_world
   = (Some (AttributeError ''_tqm''), fresh_world)
   \<and> fst (run_playbook (quiet_engine\<lparr>read_file := (\<lambda>p. Inr leaking_playbook)\<rparr>) ''./hello.yml''
            VNone logging_world)
     = Some (AttributeError ''_tqm'')
   \<and> torn_down (snd (run_playbook (quiet_engine\<lparr>read_file := (\<lambda>p. Inr leaking_playbook)\<rparr>)
                         ''./hello.yml'' VNone logging_world))
     = []
   \<and> run_playbook (quiet_engine\<lparr>read_file := (\<lambda>p. Inr plain_playbook)\<rparr>) ''./hello.yml'' VNone
       fresh_world
     = (None, fresh_world\<lparr>effects := [ExecutorCreated ''./hello.yml'', ExecutorRun ''./hello.yml'',
                                        TqmCleanup]\<rparr>)"
proof -
  have flagged: "check_ansible_variable leaking_playbook = (True, Some ''ansible_ssh_pass'')"
    by code_simp
  have clean: "check_ansible_variable plain_playbook = (False, None)"
    by code_simp
  show ?thesis
    by (simp add: run_playbook_def playbook_try_def playbook_except_def playbook_finally_def
        try_except_finally_def quiet_engine_def fresh_world_def logging_world_def on_error_def
        record_line_def CallbackModule_init_def close_channel_def emit_def deliver_all_def
        torn_down_def kept_def flagged clean)
qed

subsection \<open>Facts Summarizer\<close>

lemma summarize_needs_product_name:
  assumes "fact i ''ansible_product_name'' = Inl e"
  shows "\<exists>e'. summarize L i = Inl e'"
  using assms by (auto simp: summarize_def exc_bind_def split: sum.splits)

text \<open>
  C7. A record of the ok bucket whose facts lack \<open>ansible_product_name\<close> gets no
  HostInfoRecord: the lookup raises \<open>KeyError\<close>, and \<open>get_server_info\<close> raises it to its
  caller instead of reporting \<open>"unknown"\<close>.
\<close>

theorem get_server_info_missing_product_name:
  "summarize L (outcome facts_without_product_name True ''ok'')
   = Inl (KeyError ''ansible_product_name'')
   \<and> fst (get_server_info L
            (quiet_engine\<lparr>tqm_run := (\<lambda>s. ([RunnerOk facts_without_product_name], None))\<rparr>)
            (VStr ''all'') fresh_world)
     = Inl (KeyError ''ansible_product_name'')"
proof -
  have one: "summarize L (outcome facts_without_product_name True ''ok'')
             = Inl (KeyError ''ansible_product_name'')"
    by (simp add: summarize_def fact_def exc_bind_def outcome_def facts_without_product_name_def
        dict_index_def)
  have run: "run_module (quiet_engine\<lparr>tqm_run := (\<lambda>s. ([RunnerOk facts_without_product_name], None))\<rparr>)
               ''setup'' (VStr []) (VStr ''all'') fresh_world
             = (None, \<lparr>results_callback =
                          CallbackModule_init\<lparr>host_ok := [outcome facts_without_product_name True ''ok'']\<rparr>,
                        effects = [TqmCreated,
                                   TqmRun \<lparr>ps_hosts = VStr ''all'', ps_module = ''setup'', ps_args = VStr []\<rparr>,
                                   TqmCleanup, RmTree]\<rparr>)"
    by (simp add: run_module_def module_try_def module_except_def module_finally_def
        try_except_finally_def quiet_engine_def fresh_world_def emit_def deliver_all_def
        v2_runner_on_ok_def CallbackModule_init_def)
  show ?thesis
    by (simp add: get_server_info_def run get_res_def CallbackModule_init_def one exc_bind_def)
qed

subsection \<open>Host Record\<close>

lemma vars_set_variable: "map_of (vars (set_variable h k v)) = (map_of (vars h))(k \<mapsto> v)"
  by (simp add: set_variable_def update_conv')

lemma name_set_variable: "name (set_variable h k v) = name h"
  by (simp add: set_variable_def)

lemma exc_bind_Inr:
  "exc_bind m f = Inr y \<Longrightarrow> \<exists>x. m = Inr x \<and> f x = Inr y"
  by (cases m) (simp_all add: exc_bind_def)

lemma fold_set_variable_name:
  "name (fold (\<lambda>(k, v) h. set_variable h k v) ev h) = name h"
  by (induction ev arbitrary: h) (auto simp: name_set_variable)

lemma fold_set_variable_vars:
  "distinct (map fst ev) \<Longrightarrow>
   map_of (vars (fold (\<lambda>(k, v) h. set_variable h k v) ev h)) k
   = (case map_of ev k of Some v \<Rightarrow> Some v | None \<Rightarrow> map_of (vars h) k)"
proof (induction ev arbitrary: h)
  case Nil
  then show ?case by simp
next
  case (Cons p ev)
  obtain k' v' where p: "p = (k', v')" by (cases p)
  from Cons.prems p have notin: "k' \<notin> fst ` set ev" and d: "distinct (map fst ev)" by auto
  have "map_of ev k' = None" using notin by (simp add: map_of_eq_None_iff)
  then show ?case using Cons.IH [OF d, of "set_variable h k' v'"] p
    by (auto simp: vars_set_variable split: option.splits)
qed

lemma set_become_variables_keeps:
  assumes "set_become_variables become h = Inr h'"
  shows "map_of (vars h') ''ansible_host'' = map_of (vars h) ''ansible_host''
         \<and> map_of (vars h') ''ansible_port'' = map_of (vars h) ''ansible_port''
         \<and> name h' = name h"
  using assms
  by (auto simp: set_become_variables_def exc_bind_def vars_set_variable name_set_variable Let_def
      split: if_splits sum.splits)

lemma dict_index_Inr: "dict_index d k = Inr v \<Longrightarrow> dict_get d k = v"
  by (auto simp: dict_index_def dict_get_def split: option.splits)

lemma set_required_variables_sets:
  assumes "set_required_variables host_data h = Inr h'"
  shows "map_of (vars h') ''ansible_host'' = Some (dict_get host_data ''ip'')
         \<and> map_of (vars h') ''ansible_port'' = Some (dict_get host_data ''port'')
         \<and> name h' = name h"
  using assms
  by (auto simp: set_required_variables_def exc_bind_def vars_set_variable name_set_variable Let_def
      ANSIBLE_CONNECTION_TYPE_def dict_index_Inr
      split: sum.splits dest!: set_become_variables_keeps)

lemma Host_init_name: "Host_init ios nm port = Inr h \<Longrightarrow> name h = nm"
  by (auto simp: Host_init_def exc_bind_def name_set_variable Let_def split: if_splits sum.splits)

lemma BaseHost_init_name:
  assumes "BaseHost_init ios host_data = Inr h"
  shows "name h = descriptor_name host_data"
  using assms
  by (auto simp: BaseHost_init_def descriptor_name_def Let_def set_extra_variables_def
      fold_set_variable_name dest!: exc_bind_Inr Host_init_name set_required_variables_sets
      split: pyval.splits)

text \<open>
  C4 (as amended). Extra variables are merged last and shadow every variable set before
  them, \<open>ansible_host\<close> and \<open>ansible_port\<close> included: after a construction that succeeds,
  each key of the extra-vars mapping holds the extra value, and \<open>ansible_host\<close>
  (\<open>ansible_port\<close>) is the descriptor's ip (port) when the extra variables do not name it.
\<close>

theorem extra_variables_shadow:
  assumes "BaseHost_init ios host_data = Inr h"
    and "dict_get_default host_data ''vars'' (VDict []) = VDict extra"
    and "distinct (map fst extra)"
  shows "map_of (vars h) ''ansible_host''
           = Some (case map_of extra ''ansible_host'' of Some v \<Rightarrow> v | None \<Rightarrow> dict_get host_data ''ip'')
         \<and> map_of (vars h) ''ansible_port''
           = Some (case map_of extra ''ansible_port'' of Some v \<Rightarrow> v | None \<Rightarrow> dict_get host_data ''port'')
         \<and> (\<forall>k v. map_of extra k = Some v \<longrightarrow> map_of (vars h) k = Some v)"
proof -
  from assms(1) obtain h0 h1 where
    "set_required_variables host_data h0 = Inr h1" and e: "set_extra_variables host_data h1 = Inr h"
    by (auto simp: BaseHost_init_def Let_def dest!: exc_bind_Inr)
  then have req: "map_of (vars h1) ''ansible_host'' = Some (dict_get host_data ''ip'')"
    "map_of (vars h1) ''ansible_port'' = Some (dict_get host_data ''port'')"
    using set_required_variables_sets by blast+
  from e assms(2) have h: "h = fold (\<lambda>(k, v) h. set_variable h k v) extra h1"
    by (simp add: set_extra_variables_def)
  show ?thesis
    using req by (auto simp: h fold_set_variable_vars [OF assms(3)] split: option.splits)
qed

subsection \<open>Inventory Builder\<close>

lemma add_host_cases:
  assumes "add_host members h = Inr members'"
  shows "members' = joined members h"
  using assms by (auto simp: add_host_def joined_def split: if_splits)

lemma joined_twice: "joined (joined ms h) h = joined ms h"
  by (simp add: joined_def)

lemma group_add_host_other:
  assumes "group_add_host ivt g h = Inr ivt'" and "g \<noteq> g'"
  shows "map_of (groups ivt') g' = map_of (groups ivt) g'"
  using assms
  by (auto simp: group_add_host_def get_group_def update_conv' dest!: exc_bind_Inr
      split: option.splits)

lemma group_add_host_same:
  assumes "group_add_host ivt g h = Inr ivt'" and "map_of (groups ivt) g = Some members"
  shows "map_of (groups ivt') g = Some (joined members h)"
  using assms
  by (auto simp: group_add_host_def get_group_def update_conv' dest!: exc_bind_Inr add_host_cases
      split: option.splits)

lemma add_group_keeps:
  assumes "add_group ivt g = Inr ivt'" and "map_of (groups ivt) g' = Some members"
  shows "map_of (groups ivt') g' = Some members"
  using assms
  by (auto simp: add_group_def split: pyval.splits if_splits)

lemma group_add_host_filing:
  assumes "group_add_host ivt g h = Inr ivt'" and "filing ms h ivt"
  shows "filing ms h ivt'"
proof (cases "g = ''all''")
  case True
  from assms(2) consider "map_of (groups ivt) g = Some ms" | "map_of (groups ivt) g = Some (joined ms h)"
    using True by (auto simp: filing_def)
  then show ?thesis
  proof cases
    case 1
    from group_add_host_same [OF assms(1) 1] True show ?thesis
      by (simp add: filing_def)
  next
    case 2
    from group_add_host_same [OF assms(1) 2] True show ?thesis
      by (simp add: filing_def joined_twice)
  qed
next
  case False
  with group_add_host_other [OF assms(1), of "''all''"] assms(2) show ?thesis
    by (simp add: filing_def)
qed

lemma add_group_filing:
  assumes "add_group ivt g = Inr ivt'" and "filing ms h ivt"
  shows "filing ms h ivt'"
  using assms add_group_keeps [OF assms(1), of "''all''"]
  by (auto simp: filing_def)

lemma add_to_group_filing:
  assumes "add_to_group ivt h gn = Inr ivt'" and "filing ms h ivt"
  shows "filing ms h ivt'"
proof (cases gn)
  case (VStr g)
  show ?thesis
  proof (cases "get_group ivt g")
    case None
    with assms(1) VStr obtain ivt1 where
      a: "add_group ivt gn = Inr ivt1" and b: "group_add_host ivt1 g h = Inr ivt'"
      by (auto simp: add_to_group_def dest!: exc_bind_Inr)
    from add_group_filing [OF a assms(2)] have "filing ms h ivt1" .
    from group_add_host_filing [OF b this] show ?thesis .
  next
    case (Some members)
    with assms(1) VStr have "group_add_host ivt g h = Inr ivt'"
      by (simp add: add_to_group_def)
    from group_add_host_filing [OF this assms(2)] show ?thesis .
  qed
qed (use assms(1) in \<open>auto simp: add_to_group_def add_group_def exc_bind_def split: if_splits\<close>)

lemma add_to_groups_filing:
  assumes "add_to_groups ivt h gns = Inr ivt'" and "filing ms h ivt"
  shows "filing ms h ivt'"
  using assms
proof (induction gns arbitrary: ivt)
  case Nil
  then show ?case by simp
next
  case (Cons gn gns)
  from Cons.prems(1) obtain ivt1 where
    one: "add_to_group ivt h gn = Inr ivt1" and rest: "add_to_groups ivt1 h gns = Inr ivt'"
    by (auto dest!: exc_bind_Inr)
  from add_to_group_filing [OF one Cons.prems(2)] have "filing ms h ivt1" .
  from Cons.IH [OF rest this] show ?case .
qed

lemma parse_host_all:
  assumes "parse_host ios ivt host_data = Inr ivt'"
    and "map_of (groups ivt) ''all'' = Some ms"
  shows "\<exists>h. BaseHost_init ios host_data = Inr h
             \<and> map_of (groups ivt') ''all'' = Some (joined ms h)"
proof -
  have a: "exc_bind (BaseHost_init ios host_data) (\<lambda>h.
           exc_bind (dict_index host_data ''hostname'') (\<lambda>key.
             if \<not> hashable key then Inl TypeError
             else
               let ivt = ivt\<lparr>hosts := AList.update (py_key key) h (hosts ivt)\<rparr>;
                   groups_data = dict_get host_data ''groups''
               in exc_bind
                    (if truthy groups_data
                     then exc_bind (py_iter groups_data) (add_to_groups ivt h)
                     else group_add_host ivt ''ungrouped'' h)
                    (\<lambda>ivt. group_add_host ivt ''all'' h))) = Inr ivt'"
    using assms(1) unfolding parse_host_def .
  from exc_bind_Inr [OF a] obtain h where
    h: "BaseHost_init ios host_data = Inr h"
    and b: "exc_bind (dict_index host_data ''hostname'') (\<lambda>key.
             if \<not> hashable key then Inl TypeError
             else
               let ivt = ivt\<lparr>hosts := AList.update (py_key key) h (hosts ivt)\<rparr>;
                   groups_data = dict_get host_data ''groups''
               in exc_bind
                    (if truthy groups_data
                     then exc_bind (py_iter groups_data) (add_to_groups ivt h)
                     else group_add_host ivt ''ungrouped'' h)
                    (\<lambda>ivt. group_add_host ivt ''all'' h)) = Inr ivt'"
    by blast
  from exc_bind_Inr [OF b] obtain key where
    c: "exc_bind
              (if truthy (dict_get host_data ''groups'')
               then exc_bind (py_iter (dict_get host_data ''groups''))
                      (add_to_groups (ivt\<lparr>hosts := AList.update (py_key key) h (hosts ivt)\<rparr>) h)
               else group_add_host (ivt\<lparr>hosts := AList.update (py_key key) h (hosts ivt)\<rparr>)
                      ''ungrouped'' h)
              (\<lambda>ivt. group_add_host ivt ''all'' h) = Inr ivt'"
    by (auto simp: Let_def split: if_splits)
  from exc_bind_Inr [OF c] obtain ivt1 where
    mid: "(if truthy (dict_get host_data ''groups'')
               then exc_bind (py_iter (dict_get host_data ''groups''))
                      (add_to_groups (ivt\<lparr>hosts := AList.update (py_key key) h (hosts ivt)\<rparr>) h)
               else group_add_host (ivt\<lparr>hosts := AList.update (py_key key) h (hosts ivt)\<rparr>)
                      ''ungrouped'' h) = Inr ivt1"
    and fin: "group_add_host ivt1 ''all'' h = Inr ivt'"
    by blast
  let ?ivt0 = "ivt\<lparr>hosts := AList.update (py_key key) h (hosts ivt)\<rparr>"
  have f0: "filing ms h ?ivt0" using assms(2) by (simp add: filing_def)
  have f1: "filing ms h ivt1"
  proof (cases "truthy (dict_get host_data ''groups'')")
    case True
    with mid obtain gns where "add_to_groups ?ivt0 h gns = Inr ivt1"
      by (auto dest!: exc_bind_Inr)
    from add_to_groups_filing [OF this f0] show ?thesis .
  next
    case False
    with mid have "group_add_host ?ivt0 ''ungrouped'' h = Inr ivt1" by simp
    from group_add_host_filing [OF this f0] show ?thesis .
  qed
  from f1 consider "map_of (groups ivt1) ''all'' = Some ms"
    | "map_of (groups ivt1) ''all'' = Some (joined ms h)"
    by (auto simp: filing_def)
  then have "map_of (groups ivt') ''all'' = Some (joined ms h)"
  proof cases
    case 1
    from group_add_host_same [OF fin 1] show ?thesis .
  next
    case 2
    from group_add_host_same [OF fin 2] show ?thesis by (simp add: joined_twice)
  qed
  with h show ?thesis by blast
qed

lemma parse_hosts_all:
  assumes "parse_hosts ios ivt ds = Inr ivt'"
    and "map_of (groups ivt) ''all'' = Some ms"
  shows "\<exists>hs. map_of (groups ivt') ''all'' = Some (ms @ hs)
              \<and> list_all2 (\<lambda>h d. BaseHost_init ios d = Inr h) hs
                   (filter (\<lambda>d. py_key (descriptor_name d) \<notin> set (map (\<lambda>m. py_key (name m)) ms))
                      (first_of_name ds))"
  using assms
proof (induction ds arbitrary: ivt ms)
  case Nil
  then show ?case by simp
next
  case (Cons d ds)
  let ?K = "set (map (\<lambda>m. py_key (name m)) ms)"
  let ?k = "py_key (descriptor_name d)"
  from Cons.prems(1) obtain ivt1 where
    one: "parse_host ios ivt d = Inr ivt1" and rest: "parse_hosts ios ivt1 ds = Inr ivt'"
    by (auto dest!: exc_bind_Inr)
  from parse_host_all [OF one Cons.prems(2)] obtain h where
    h: "BaseHost_init ios d = Inr h" "map_of (groups ivt1) ''all'' = Some (joined ms h)"
    by blast
  have nm: "py_key (name h) = ?k" using BaseHost_init_name [OF h(1)] by simp
  from Cons.IH [OF rest h(2)] obtain hs where
    hs: "map_of (groups ivt') ''all'' = Some (joined ms h @ hs)"
    "list_all2 (\<lambda>h d. BaseHost_init ios d = Inr h) hs
       (filter (\<lambda>e. py_key (descriptor_name e) \<notin> set (map (\<lambda>m. py_key (name m)) (joined ms h)))
          (first_of_name ds))"
    by blast
  show ?case
  proof (cases "?k \<in> ?K")
    case True
    then have j: "joined ms h = ms" using nm by (simp add: joined_def)
    have "(\<lambda>e. py_key (descriptor_name e) \<noteq> ?k \<and> py_key (descriptor_name e) \<notin> ?K)
          = (\<lambda>e. py_key (descriptor_name e) \<notin> ?K)"
      using True by auto
    then have "filter (\<lambda>e. py_key (descriptor_name e) \<notin> ?K) (first_of_name (d # ds))
          = filter (\<lambda>e. py_key (descriptor_name e) \<notin> ?K) (first_of_name ds)"
      using True by (simp add: conj_commute)
    with hs j show ?thesis by auto
  next
    case False
    then have j: "joined ms h = ms @ [h]" using nm by (simp add: joined_def)
    have "(\<lambda>e. py_key (descriptor_name e) \<noteq> ?k \<and> py_key (descriptor_name e) \<notin> ?K)
          = (\<lambda>e. py_key (descriptor_name e) \<notin> set (map (\<lambda>m. py_key (name m)) (ms @ [h])))"
      using nm by auto
    then have "filter (\<lambda>e. py_key (descriptor_name e) \<notin> ?K) (first_of_name (d # ds))
          = d # filter (\<lambda>e. py_key (descriptor_name e) \<notin> set (map (\<lambda>m. py_key (name m)) (ms @ [h])))
                  (first_of_name ds)"
      using False by (simp add: conj_commute)
    moreover have "map_of (groups ivt') ''all'' = Some (ms @ (h # hs))" using hs(1) j by simp
    moreover have "list_all2 (\<lambda>h d. BaseHost_init ios d = Inr h) (h # hs)
        (d # filter (\<lambda>e. py_key (descriptor_name e) \<notin> set (map (\<lambda>m. py_key (name m)) (ms @ [h])))
                  (first_of_name ds))"
      using hs(2) h(1) j by simp
    ultimately show ?thesis by metis
  qed
qed

lemma image_without: "insert (f d) (f ` {x \<in> A. f x \<noteq> f d}) = insert (f d) (f ` A)"
  by auto

lemma first_of_name_set:
  "(\<lambda>d. py_key (descriptor_name d)) ` set (first_of_name ds) = (\<lambda>d. py_key (descriptor_name d)) ` set ds"
proof (induction ds)
  case Nil
  then show ?case by simp
next
  case (Cons d ds)
  have "(\<lambda>d. py_key (descriptor_name d)) ` set (first_of_name (d # ds))
        = insert (py_key (descriptor_name d))
            ((\<lambda>d. py_key (descriptor_name d)) ` set (first_of_name ds))"
    using image_without [of "\<lambda>d. py_key (descriptor_name d)" d "set (first_of_name ds)"] by simp
  with Cons show ?case by simp
qed

lemma first_of_name_subset: "set (first_of_name ds) \<subseteq> set ds"
  by (induction ds) auto

lemma first_of_name_distinct:
  "distinct (map (\<lambda>d. py_key (descriptor_name d)) (first_of_name ds))"
proof (induction ds)
  case Nil
  then show ?case by simp
next
  case (Cons d ds)
  then show ?case by (auto simp: distinct_map_filter)
qed

lemma first_of_name_length:
  "length (first_of_name ds) = card ((\<lambda>d. py_key (descriptor_name d)) ` set ds)"
proof -
  have "length (first_of_name ds) = length (map (\<lambda>d. py_key (descriptor_name d)) (first_of_name ds))"
    by simp
  also have "\<dots> = card (set (map (\<lambda>d. py_key (descriptor_name d)) (first_of_name ds)))"
    using first_of_name_distinct by (simp only: distinct_card)
  also have "\<dots> = card ((\<lambda>d. py_key (descriptor_name d)) ` set ds)"
    using first_of_name_set by simp
  finally show ?thesis .
qed

lemma first_of_name_all:
  "(length (first_of_name ds) = length ds) = distinct (map (\<lambda>d. py_key (descriptor_name d)) ds)"
proof
  assume "length (first_of_name ds) = length ds"
  then have "card (set (map (\<lambda>d. py_key (descriptor_name d)) ds))
             = length (map (\<lambda>d. py_key (descriptor_name d)) ds)"
    by (simp add: first_of_name_length)
  then show "distinct (map (\<lambda>d. py_key (descriptor_name d)) ds)" by (rule card_distinct)
next
  assume "distinct (map (\<lambda>d. py_key (descriptor_name d)) ds)"
  then have "first_of_name ds = ds"
  proof (induction ds)
    case Nil
    then show ?case by simp
  next
    case (Cons d ds)
    then have "\<forall>e \<in> set ds. py_key (descriptor_name e) \<noteq> py_key (descriptor_name d)"
      by (metis distinct.simps(2) imageI list.simps(9) set_map)
    then have "filter (\<lambda>e. py_key (descriptor_name e) \<noteq> py_key (descriptor_name d)) ds = ds"
      by (simp add: filter_id_conv)
    with Cons show ?case by simp
  qed
  then show "length (first_of_name ds) = length ds" by simp
qed

text \<open>
  C5 (as amended). For descriptors from which the inventory is built, resolving the
  pattern "all" returns, without duplicates and in the order given, one host for every
  name among the descriptors (hostname, or ip when the hostname is empty): the list has
  one host per distinct name, each built from a descriptor of that name, so it has as
  many hosts as there are distinct names, and as many as there are descriptors exactly
  when no two descriptors share a name.
\<close>

theorem all_resolves_to_every_host:
  assumes "BaseInventory_init ios (Some ds) = Inr ivt"
  shows "distinct (map (\<lambda>h. py_key (name h)) (get_matched_hosts ivt ''all''))
         \<and> map name (get_matched_hosts ivt ''all'') = map descriptor_name (first_of_name ds)
         \<and> (\<lambda>h. py_key (name h)) ` set (get_matched_hosts ivt ''all'')
             = (\<lambda>d. py_key (descriptor_name d)) ` set ds
         \<and> (\<forall>h \<in> set (get_matched_hosts ivt ''all''). \<exists>d \<in> set ds. BaseHost_init ios d = Inr h)
         \<and> length (get_matched_hosts ivt ''all'') = card ((\<lambda>d. py_key (descriptor_name d)) ` set ds)
         \<and> (length (get_matched_hosts ivt ''all'') = length ds)
             = distinct (map (\<lambda>d. py_key (descriptor_name d)) ds)"
proof -
  let ?ivt0 = "\<lparr>host_list = ds, hosts = [], groups = [(''all'', []), (''ungrouped'', [])]\<rparr>"
  let ?hs = "get_matched_hosts ivt ''all''"
  from assms have run: "parse_hosts ios ?ivt0 ds = Inr ivt"
    by (simp add: BaseInventory_init_def parse_sources_def)
  from parse_hosts_all [OF run, of "[]"] obtain hs where
    hs: "map_of (groups ivt) ''all'' = Some hs"
    "list_all2 (\<lambda>h d. BaseHost_init ios d = Inr h) hs (first_of_name ds)"
    by auto
  have res: "?hs = hs"
    by (simp add: get_matched_hosts_def get_hosts_def hs(1))
  have each: "list_all2 (\<lambda>h d. name h = descriptor_name d) hs (first_of_name ds)"
    using hs(2) by (rule list_all2_mono) (rule BaseHost_init_name)
  have names: "map name hs = map descriptor_name (first_of_name ds)"
    using each by (induction rule: list_all2_induct) simp_all
  from arg_cong [OF names, of "map py_key"]
  have keys: "map (\<lambda>h. py_key (name h)) hs
              = map (\<lambda>d. py_key (descriptor_name d)) (first_of_name ds)"
    by (simp add: comp_def)
  have len: "length hs = length (first_of_name ds)"
    using hs(2) by (rule list_all2_lengthD)
  have a: "distinct (map (\<lambda>h. py_key (name h)) hs)"
    by (simp only: keys first_of_name_distinct)
  have c: "(\<lambda>h. py_key (name h)) ` set hs = (\<lambda>d. py_key (descriptor_name d)) ` set ds"
    using keys first_of_name_set [of ds] by (metis set_map)
  have d: "\<forall>h \<in> set hs. \<exists>d \<in> set ds. BaseHost_init ios d = Inr h"
  proof
    fix h assume "h \<in> set hs"
    then obtain i where i: "i < length hs" "hs ! i = h"
      by (auto simp: in_set_conv_nth)
    from list_all2_nthD [OF hs(2) i(1)] i(2)
    have "BaseHost_init ios (first_of_name ds ! i) = Inr h" by simp
    moreover have "first_of_name ds ! i \<in> set (first_of_name ds)"
      using i(1) len by simp
    ultimately obtain d where "d \<in> set (first_of_name ds)" "BaseHost_init ios d = Inr h"
      by blast
    with first_of_name_subset show "\<exists>d \<in> set ds. BaseHost_init ios d = Inr h" by blast
  qed
  have e: "length hs = card ((\<lambda>d. py_key (descriptor_name d)) ` set ds)"
    by (simp only: len first_of_name_length)
  have f: "(length hs = length ds) = distinct (map (\<lambda>d. py_key (descriptor_name d)) ds)"
    by (simp only: len first_of_name_all)
  from a names c d e f show ?thesis unfolding res by blast
qed

subsection \<open>Dispatch and teardown\<close>

lemma kept_emit: "kept P (emit e w) = kept P w @ (if P e then [e] else [])"
  by (simp add: kept_def emit_def)

lemma kept_deliver_all: "kept P (deliver_all events w) = kept P w"
  by (simp add: kept_def deliver_all_def)

lemma kept_record_line: "kept P (snd (record_line E n w)) = kept P w"
  by (simp add: record_line_def kept_def split: option.splits)

lemma kept_on_error:
  assumes "\<And>n. \<not> P (SendMessage n)"
  shows "kept P (snd (on_error E err w)) = kept P w"
proof -
  obtain r w1 where rl: "record_line E (Fault err) w = (r, w1)" by (cases "record_line E (Fault err) w")
  then have "kept P w1 = kept P w" using kept_record_line [of P E "Fault err" w] by simp
  then show ?thesis using rl assms by (cases r) (simp_all add: on_error_def kept_emit)
qed

lemma kept_close_channel: "\<not> P CloseChannel \<Longrightarrow> kept P (close_channel grp w) = kept P w"
  by (simp add: close_channel_def kept_emit)

lemmas dispatched_simps =
  kept_emit [of is_dispatch, folded dispatched_def]
  kept_deliver_all [of is_dispatch, folded dispatched_def]
  kept_record_line [of is_dispatch, folded dispatched_def]
  kept_on_error [of is_dispatch, folded dispatched_def, simplified]
  kept_close_channel [of is_dispatch, folded dispatched_def, simplified]

lemmas torn_down_simps =
  kept_emit [of is_teardown, folded torn_down_def]
  kept_deliver_all [of is_teardown, folded torn_down_def]
  kept_record_line [of is_teardown, folded torn_down_def]
  kept_on_error [of is_teardown, folded torn_down_def, simplified]
  kept_close_channel [of is_teardown, folded torn_down_def, simplified]

lemma try_except_finally_keeps:
  assumes "\<And>s. g (snd (body s)) = g s" and "\<And>e s. g (snd (handler e s)) = g s"
    and "\<And>s. g (snd (fin s)) = g s"
  shows "g (snd (try_except_finally body handler fin s)) = g s"
proof -
  obtain r1 s1 where b: "body s = (r1, s1)" by (cases "body s")
  obtain r2 s2 where h: "(case r1 of None \<Rightarrow> (None, s1) | Some e \<Rightarrow> handler e s1) = (r2, s2)"
    by (cases "case r1 of None \<Rightarrow> (None, s1) | Some e \<Rightarrow> handler e s1")
  obtain r3 s3 where f: "fin s2 = (r3, s3)" by (cases "fin s2")
  have "g s1 = g s" using assms(1) [of s] b by simp
  moreover have "g s2 = g s1"
  proof (cases r1)
    case None
    with h show ?thesis by simp
  next
    case (Some e)
    with h assms(2) [of e s1] show ?thesis by simp
  qed
  moreover have "g s3 = g s2" using assms(3) [of s2] f by simp
  ultimately show ?thesis
    by (cases r3) (simp_all add: try_except_finally_def b h f)
qed

lemma dispatched_scan_rejects:
  assumes "fst (check_ansible_variable cmds)"
  shows "dispatched (snd (scan_then_run E module_name cmds pattern w)) = dispatched w"
proof -
  obtain v where c: "check_ansible_variable cmds = (True, v)"
    using assms by (cases "check_ansible_variable cmds") auto
  obtain r w1 where rl: "record_line E (IllegalVariable v) w = (r, w1)"
    by (cases "record_line E (IllegalVariable v) w")
  then have "dispatched w1 = dispatched w"
    using dispatched_simps(3) [of E "IllegalVariable v" w] by simp
  then show ?thesis using rl c by (cases r) (simp_all add: scan_then_run_def dispatched_simps(1))
qed

lemma snd_unpack: "snd (case x of (r, (p, w')) \<Rightarrow> (r, w')) = snd (snd x)"
  by (cases x) auto

lemma run_module_dispatches:
  assumes "play_load E \<lparr>ps_hosts = pattern, ps_module = module_name, ps_args = module_args\<rparr> = None"
    and "tqm_new E = None"
  shows "dispatched (snd (run_module E module_name module_args pattern w))
         = dispatched w @ [TqmRun \<lparr>ps_hosts = pattern, ps_module = module_name, ps_args = module_args\<rparr>]"
  using assms
  by (auto simp: run_module_def module_try_def module_except_def module_finally_def
      try_except_finally_def dispatched_simps(1) dispatched_simps(2)
      Let_def split: prod.splits option.splits)

lemma run_cmd_rejects:
  assumes "fst (check_ansible_variable cmds)"
  shows "dispatched (snd (run_cmd E cmds pattern grp w)) = dispatched w"
  unfolding run_cmd_def
  by (rule try_except_finally_keeps)
     (simp_all add: dispatched_scan_rejects [OF assms] dispatched_simps(4) dispatched_simps(5))

lemma run_script_rejects:
  assumes "fst (check_ansible_variable cmds)"
  shows "dispatched (snd (run_script E cmds pattern grp w)) = dispatched w"
  unfolding run_script_def
  by (rule try_except_finally_keeps)
     (simp_all add: dispatched_scan_rejects [OF assms] dispatched_simps(4) dispatched_simps(5))

lemma run_modules_rejects:
  assumes "fst (check_ansible_variable cmds)"
  shows "dispatched (snd (run_modules E cmds module_name pattern grp w)) = dispatched w"
  unfolding run_modules_def
  by (rule try_except_finally_keeps)
     (auto simp: dispatched_scan_rejects [OF assms] dispatched_simps(4) dispatched_simps(1) Let_def
       split: option.splits)

lemma run_copy_rejects:
  assumes "fst (check_ansible_variable cmds)"
  shows "dispatched (snd (run_copy E cmds pattern grp w)) = dispatched w"
  unfolding run_copy_def
  by (rule try_except_finally_keeps)
     (auto simp: dispatched_scan_rejects [OF assms] dispatched_simps(4) dispatched_simps(1) Let_def
       dispatched_simps(5) split: option.splits)

lemma run_playbook_rejects:
  assumes "read_file E playbook_yml = Inr content" and "fst (check_ansible_variable content)"
  shows "dispatched (snd (run_playbook E playbook_yml grp w)) = dispatched w"
proof -
  obtain v where c: "check_ansible_variable content = (True, v)"
    using assms(2) by (cases "check_ansible_variable content") auto
  let ?g = "\<lambda>s :: executor option \<times> world. dispatched (snd s)"
  have "?g (snd (try_except_finally (playbook_try E playbook_yml) (playbook_except E)
                   (playbook_finally E grp) (None, w))) = ?g (None, w)"
  proof (rule try_except_finally_keeps [where g = ?g], goal_cases)
    case (1 s)
    obtain p w0 where s: "s = (p, w0)" by (cases s)
    obtain r w1 where rl: "record_line E (IllegalVariable v) w0 = (r, w1)"
      by (cases "record_line E (IllegalVariable v) w0")
    then have "dispatched w1 = dispatched w0"
      using dispatched_simps(3) [of E "IllegalVariable v" w0] by simp
    then show ?case using s rl c assms(1) by (cases r) (simp_all add: playbook_try_def)
  next
    case (2 e s)
    obtain p w0 where s: "s = (p, w0)" by (cases s)
    obtain r w1 where oe: "on_error E e w0 = (r, w1)" by (cases "on_error E e w0")
    then have "dispatched w1 = dispatched w0" using dispatched_simps(4) [of E e w0] by simp
    then show ?case using s oe by (simp add: playbook_except_def)
  next
    case (3 s)
    obtain p w0 where s: "s = (p, w0)" by (cases s)
    show ?case using s
      by (auto simp: playbook_finally_def Let_def dispatched_simps(5) dispatched_simps(1)
          split: option.splits)
  qed
  then show ?thesis by (simp add: run_playbook_def snd_unpack)
qed

text \<open>
  C9. \<open>run_module\<close> never consults the Variable Safety Filter: when the play loads and
  the runtime is created, a command the filter flags is dispatched unchanged, by
  \<open>run_module\<close> itself and by a round of the WebSocket endpoint that forwards the received
  \<open>cmd\<close>; the entry points that scan (\<open>run_cmd\<close>, \<open>run_modules\<close>, \<open>run_script\<close>, \<open>run_copy\<close>,
  \<open>run_playbook\<close>) dispatch nothing for the same text.
\<close>

theorem run_module_does_not_scan:
  assumes "\<And>s. play_load E s = None" and "tqm_new E = None"
    and "fst (check_ansible_variable cmds)"
    and "dict_get_default data ''cmd'' (VStr ''ls -lha /tmp'') = VStr cmds"
    and "BaseInventory_init ios (Some [hostdat data]) = Inr ivt"
  shows "dispatched (snd (run_module E module_name (VStr cmds) pattern w))
           = dispatched w @ [TqmRun \<lparr>ps_hosts = pattern, ps_module = module_name, ps_args = VStr cmds\<rparr>]
         \<and> dispatched (snd (snd (websocket_round ios E data)))
           = [TqmRun \<lparr>ps_hosts = dict_get_default data ''hostname'' (VStr ''test''),
                      ps_module = ''shell'', ps_args = VStr cmds\<rparr>]
         \<and> dispatched (snd (run_cmd E cmds pattern grp w)) = dispatched w
         \<and> dispatched (snd (run_modules E cmds module_name pattern grp w)) = dispatched w
         \<and> dispatched (snd (run_script E cmds pattern grp w)) = dispatched w
         \<and> dispatched (snd (run_copy E cmds pattern grp w)) = dispatched w
         \<and> dispatched (snd (run_playbook (E\<lparr>read_file := \<lambda>p. Inr cmds\<rparr>) playbook_yml grp w))
           = dispatched w"
proof -
  let ?w0 = "\<lparr>results_callback = CallbackModule_init, effects = []\<rparr>"
  have ws: "dispatched (snd (snd (websocket_round ios E data)))
            = dispatched (snd (run_module E ''shell'' (VStr cmds)
                (dict_get_default data ''hostname'' (VStr ''test'')) ?w0))"
    using assms(4,5) by (simp add: websocket_round_def split: prod.splits option.splits)
  have "dispatched ?w0 = []" by (simp add: dispatched_def kept_def)
  moreover have "dispatched (snd (run_module E ''shell'' (VStr cmds)
                    (dict_get_default data ''hostname'' (VStr ''test'')) ?w0))
                 = dispatched ?w0 @ [TqmRun \<lparr>ps_hosts = dict_get_default data ''hostname'' (VStr ''test''),
                      ps_module = ''shell'', ps_args = VStr cmds\<rparr>]"
    by (rule run_module_dispatches [OF assms(1,2)])
  ultimately have "dispatched (snd (snd (websocket_round ios E data)))
           = [TqmRun \<lparr>ps_hosts = dict_get_default data ''hostname'' (VStr ''test''),
                      ps_module = ''shell'', ps_args = VStr cmds\<rparr>]"
    using ws by simp
  moreover have "dispatched (snd (run_playbook (E\<lparr>read_file := \<lambda>p. Inr cmds\<rparr>) playbook_yml grp w))
           = dispatched w"
    by (rule run_playbook_rejects [OF _ assms(3)]) simp
  ultimately show ?thesis
    using run_module_dispatches [OF assms(1,2)] run_cmd_rejects [OF assms(3)]
      run_modules_rejects [OF assms(3)] run_script_rejects [OF assms(3)] run_copy_rejects [OF assms(3)]
    by simp
qed


lemma fst_unpack: "fst (case x of (r, (p, w')) \<Rightarrow> (r, w')) = fst x"
  by (cases x) auto

lemma run_module_teardown_once:
  assumes "play_load E \<lparr>ps_hosts = pattern, ps_module = module_name, ps_args = module_args\<rparr> = None"
    and "tqm_cleanup E = None"
  shows "fst (run_module E module_name module_args pattern w) = None
         \<and> torn_down (snd (run_module E module_name module_args pattern w))
           = torn_down w @ (if tqm_new E = None then [TqmCleanup, RmTree] else [RmTree])"
  using assms
  by (auto simp: run_module_def module_try_def module_except_def module_finally_def
      try_except_finally_def torn_down_simps Let_def split: prod.splits option.splits)

lemma run_playbook_unguarded_finally:
  assumes "read_file E playbook_yml = Inl e"
  shows "fst (run_playbook E playbook_yml grp w) = Some (AttributeError ''_tqm'')"
  using assms
  by (auto simp: run_playbook_def playbook_try_def playbook_except_def playbook_finally_def
      try_except_finally_def Let_def split: prod.splits option.splits)

lemma run_playbook_rejection_raises:
  assumes "read_file E playbook_yml = Inr content" and "fst (check_ansible_variable content)"
  shows "fst (run_playbook E playbook_yml grp w) = Some (AttributeError ''_tqm'')"
  using assms
  by (auto simp: run_playbook_def playbook_try_def playbook_except_def playbook_finally_def
      try_except_finally_def Let_def split: prod.splits option.splits)

lemma try_except_finally_last:
  assumes "\<And>s. g (snd (body s)) = g s" and "\<And>e s. g (snd (handler e s)) = g s"
  shows "\<exists>s'. g s' = g s \<and> snd (try_except_finally body handler fin s) = snd (fin s')"
proof -
  obtain r1 s1 where b: "body s = (r1, s1)" by (cases "body s")
  obtain r2 s2 where h: "(case r1 of None \<Rightarrow> (None, s1) | Some e \<Rightarrow> handler e s1) = (r2, s2)"
    by (cases "case r1 of None \<Rightarrow> (None, s1) | Some e \<Rightarrow> handler e s1")
  obtain r3 s3 where f: "fin s2 = (r3, s3)" by (cases "fin s2")
  have "g s1 = g s" using assms(1) [of s] b by simp
  moreover have "g s2 = g s1"
  proof (cases r1)
    case None
    with h show ?thesis by simp
  next
    case (Some e)
    with h assms(2) [of e s1] show ?thesis by simp
  qed
  moreover have "snd (try_except_finally body handler fin s) = snd (fin s2)"
    by (cases r3) (simp_all add: try_except_finally_def b h f)
  ultimately show ?thesis by auto
qed

lemma playbook_try_no_teardown:
  "torn_down (snd (snd (playbook_try E playbook_yml s))) = torn_down (snd s)"
proof -
  obtain p w where s: "s = (p, w)" by (cases s)
  have rl: "torn_down (snd (record_line E n w)) = torn_down w" for n
    by (rule torn_down_simps)
  show ?thesis
  proof (cases "read_file E playbook_yml")
    case (Inl e)
    then show ?thesis by (simp add: playbook_try_def s)
  next
    case (Inr content)
    obtain check v where c: "check_ansible_variable content = (check, v)"
      by (cases "check_ansible_variable content")
    show ?thesis
    proof (cases check)
      case True
      obtain r w1 where r: "record_line E (IllegalVariable v) w = (r, w1)"
        by (cases "record_line E (IllegalVariable v) w")
      with rl [of "IllegalVariable v"] have "torn_down w1 = torn_down w" by simp
      then show ?thesis using Inr c True r by (cases r) (simp_all add: playbook_try_def s)
    next
      case False
      then show ?thesis using Inr c
        by (auto simp: playbook_try_def s torn_down_simps Let_def
            split: sum.splits option.splits prod.splits)
    qed
  qed
qed

lemma playbook_except_no_teardown:
  "torn_down (snd (snd (playbook_except E err s))) = torn_down (snd s)"
proof -
  obtain p w where s: "s = (p, w)" by (cases s)
  obtain r w1 where oe: "on_error E err w = (r, w1)" by (cases "on_error E err w")
  then have "torn_down w1 = torn_down w" using torn_down_simps(4) [of E err w] by simp
  then show ?thesis by (simp add: playbook_except_def s oe)
qed

lemma playbook_finally_teardown:
  "\<exists>ts. torn_down (snd (snd (playbook_finally E grp s))) = torn_down (snd s) @ ts
        \<and> (ts = [] \<or> ts = [TqmCleanup])"
proof -
  obtain p w where s: "s = (p, w)" by (cases s)
  show ?thesis
    by (auto simp: playbook_finally_def s torn_down_simps Let_def split: option.splits)
qed

lemma run_playbook_never_purges:
  "\<exists>ts. torn_down (snd (run_playbook E playbook_yml grp w)) = torn_down w @ ts
        \<and> (ts = [] \<or> ts = [TqmCleanup])"
proof -
  let ?g = "\<lambda>s :: executor option \<times> world. torn_down (snd s)"
  from try_except_finally_last [where g = ?g and body = "playbook_try E playbook_yml"
      and handler = "playbook_except E" and fin = "playbook_finally E grp" and s = "(None, w)"]
  obtain s' where s': "torn_down (snd s') = torn_down w"
    and run: "snd (try_except_finally (playbook_try E playbook_yml) (playbook_except E)
                (playbook_finally E grp) (None, w)) = snd (playbook_finally E grp s')"
    using playbook_try_no_teardown playbook_except_no_teardown by auto
  from playbook_finally_teardown [of E grp s'] obtain ts where
    "torn_down (snd (snd (playbook_finally E grp s'))) = torn_down (snd s') @ ts"
    and "ts = [] \<or> ts = [TqmCleanup]"
    by blast
  then show ?thesis using s' run by (auto simp: run_playbook_def snd_unpack)
qed

subsection \<open>Variable Safety Filter\<close>

lemma ci_prefix_self: "ci_prefix a (a @ u)"
  by (induction a) auto

lemma ci_prefix_append: "ci_prefix a s \<Longrightarrow> ci_prefix a (s @ u)"
  by (induction a s rule: ci_prefix.induct) auto

lemma ci_prefix_cut:
  "ci_prefix a (s @ x # t) \<Longrightarrow> lower_ascii x \<notin> lower_ascii ` set a \<Longrightarrow> ci_prefix a s"
  by (induction a s rule: ci_prefix.induct) auto

lemma first_alt_cut:
  "\<forall>a \<in> set as. lower_ascii x \<notin> lower_ascii ` set a \<Longrightarrow> first_alt as (s @ x # t) = first_alt as s"
proof (induction as)
  case Nil
  then show ?case by simp
next
  case (Cons a as)
  then have "ci_prefix a (s @ x # t) = ci_prefix a s"
    using ci_prefix_cut [of a s x t] ci_prefix_append [of a s "x # t"] by auto
  with Cons show ?case by simp
qed

lemma plus_in_no_name:
  "\<forall>a \<in> set ANSIBLE_DENY_VARIBLE_LISTS. lower_ascii CHR ''+'' \<notin> lower_ascii ` set a"
  by (simp add: ANSIBLE_DENY_VARIBLE_LISTS_def lower_ascii_def)

lemma no_name_empty: "first_alt ANSIBLE_DENY_VARIBLE_LISTS [] = None"
  by (simp add: ANSIBLE_DENY_VARIBLE_LISTS_def)

lemma no_name_at_plus: "first_alt ANSIBLE_DENY_VARIBLE_LISTS (CHR ''+'' # t) = None"
  by (simp add: ANSIBLE_DENY_VARIBLE_LISTS_def lower_ascii_def)

lemma not_mentioned_head: "\<not> mentions_denied s \<Longrightarrow> first_alt ANSIBLE_DENY_VARIBLE_LISTS s = None"
  by (cases s) (simp_all add: no_name_empty)

lemma mentions_denied_plus:
  "mentions_denied (pre @ CHR ''+'' # t) = (mentions_denied pre \<or> mentions_denied t)"
proof (induction pre)
  case Nil
  then show ?case by (simp add: no_name_at_plus)
next
  case (Cons c pre)
  have "first_alt ANSIBLE_DENY_VARIBLE_LISTS ((c # pre) @ CHR ''+'' # t)
        = first_alt ANSIBLE_DENY_VARIBLE_LISTS (c # pre)"
    by (rule first_alt_cut [OF plus_in_no_name])
  with Cons show ?case by auto
qed

lemma regex_search_none: "\<not> mentions_denied s \<Longrightarrow> regex_search s = None"
proof (induction s)
  case Nil
  then show ?case by (simp add: group_at_def no_name_empty)
next
  case (Cons c t)
  then have "first_alt ANSIBLE_DENY_VARIBLE_LISTS (c # t) = None"
    and "first_alt ANSIBLE_DENY_VARIBLE_LISTS t = None"
    by (auto intro: not_mentioned_head)
  with Cons show ?case by (simp add: group_at_def)
qed

lemma startswith_Cons: "startswith s p \<Longrightarrow> \<exists>u. s = p @ u"
  by (metis append_take_drop_id startswith_def)

lemma vars_is_first: "ci_prefix ''vars'' s \<Longrightarrow> first_alt ANSIBLE_DENY_VARIBLE_LISTS s \<noteq> None"
  by (simp add: ANSIBLE_DENY_VARIBLE_LISTS_def)

lemma keyword_mentions:
  assumes "startswith s (''vars'' @ k)"
  shows "first_alt ANSIBLE_DENY_VARIBLE_LISTS s \<noteq> None"
proof -
  from startswith_Cons [OF assms] obtain u where "s = ''vars'' @ (k @ u)" by auto
  then have "ci_prefix ''vars'' s" using ci_prefix_self [of "''vars''" "k @ u"] by simp
  then show ?thesis by (rule vars_is_first)
qed

lemma replace_keyword_id:
  assumes "\<not> mentions_denied s"
  shows "py_replace (''vars'' @ k) new s = s"
  using assms
proof (induction s)
  case Nil
  then show ?case by (simp add: py_replace.simps)
next
  case (Cons c t)
  then have "first_alt ANSIBLE_DENY_VARIBLE_LISTS (c # t) = None" by simp
  then have "\<not> startswith (c # t) (''vars'' @ k)"
    using keyword_mentions [of "c # t" k] by auto
  with Cons show ?case by (subst py_replace.simps) simp
qed


lemma straddle:
  assumes "startswith (pre @ ''vars:'' @ post) ''vars:''" and "pre \<noteq> []"
  shows "ci_prefix ''vars'' pre"
proof -
  from assms(2) obtain a p1 where p: "pre = a # p1" by (cases pre) auto
  show ?thesis
  proof (cases p1)
    case Nil
    with assms(1) p show ?thesis by (simp add: startswith_def)
  next
    case (Cons b p2)
    note p1 = this
    show ?thesis
    proof (cases p2)
      case Nil
      with assms(1) p p1 show ?thesis by (simp add: startswith_def)
    next
      case (Cons c p3)
      note p2 = this
      show ?thesis
      proof (cases p3)
        case Nil
        with assms(1) p p1 p2 show ?thesis by (simp add: startswith_def)
      next
        case (Cons d p4)
        with assms(1) p p1 p2 show ?thesis by (simp add: startswith_def)
      qed
    qed
  qed
qed

lemma replace_header:
  assumes "\<not> mentions_denied pre" and "\<not> mentions_denied post"
  shows "py_replace ''vars:'' ''+++'' (pre @ ''vars:'' @ post) = pre @ ''+++'' @ post"
  using assms(1)
proof (induction pre)
  case Nil
  have "py_replace ''vars:'' ''+++'' post = post"
    using replace_keyword_id [OF assms(2), of "'':''" "''+++''"] by simp
  then show ?case by (subst py_replace.simps) (simp add: startswith_def)
next
  case (Cons c pre)
  then have none: "first_alt ANSIBLE_DENY_VARIBLE_LISTS (c # pre) = None" by simp
  have "\<not> startswith ((c # pre) @ ''vars:'' @ post) ''vars:''"
  proof
    assume "startswith ((c # pre) @ ''vars:'' @ post) ''vars:''"
    then have "ci_prefix ''vars'' (c # pre)" by (rule straddle) simp
    then show False using none vars_is_first by blast
  qed
  with Cons show ?case by (subst py_replace.simps) simp
qed

lemma neutralise_header:
  assumes "\<not> mentions_denied pre" and "\<not> mentions_denied post"
  shows "neutralise (pre @ ''vars:'' @ post) = pre @ ''+++'' @ post
         \<and> \<not> mentions_denied (pre @ ''+++'' @ post)"
proof -
  have "\<not> mentions_denied (''++'' @ post)"
    using assms(2) mentions_denied_plus [of "''+''" post] mentions_denied_plus [of "[]" post]
    by (simp add: no_name_at_plus)
  then have clean: "\<not> mentions_denied (pre @ ''+++'' @ post)"
    using assms(1) mentions_denied_plus [of pre "''++'' @ post"] by simp
  have r1: "py_replace ''vars:'' ''+++'' (pre @ ''vars:'' @ post) = pre @ ''+++'' @ post"
    by (rule replace_header [OF assms])
  have r2: "py_replace ''vars_files:'' ''+++'' (pre @ ''+++'' @ post) = pre @ ''+++'' @ post"
    using replace_keyword_id [OF clean, of "''_files:''" "''+++''"] by simp
  have "neutralise (pre @ ''vars:'' @ post) = pre @ ''+++'' @ post"
    by (simp only: neutralise_def r1 r2)
  with clean show ?thesis by blast
qed

text \<open>
  C8. The filter flags \<open>{{ ansible_become_pass }}\<close> and names \<open>ansible_become_pass\<close>;
  it does not flag the bare keyword \<open>vars:\<close>, nor any text made of the keyword \<open>vars:\<close>
  between two texts that mention no deny-listed name.
\<close>

theorem filter_examples_and_header:
  "check_ansible_variable ''{{ ansible_become_pass }}'' = (True, Some ''ansible_become_pass'')
   \<and> check_ansible_variable ''vars:'' = (False, None)
   \<and> (\<not> mentions_denied pre \<and> \<not> mentions_denied post
        \<longrightarrow> check_ansible_variable (pre @ ''vars:'' @ post) = (False, None))"
proof -
  have a: "check_ansible_variable ''{{ ansible_become_pass }}'' = (True, Some ''ansible_become_pass'')"
    by code_simp
  have b: "check_ansible_variable ''vars:'' = (False, None)"
    by code_simp
  have c: "check_ansible_variable (pre @ ''vars:'' @ post) = (False, None)"
    if "\<not> mentions_denied pre" and "\<not> mentions_denied post"
    using neutralise_header [OF that] by (simp add: check_ansible_variable_def regex_search_none)
  from a b c show ?thesis by blast
qed

lemma regex_search_first_hit:
  assumes "clear_before (length pre) (pre @ rest)" and "pre \<noteq> []"
    and "first_alt ANSIBLE_DENY_VARIBLE_LISTS rest = Some a"
  shows "regex_search (pre @ rest) = Some (last pre # take (length a + 1) rest)"
  using assms(1,2)
proof (induction pre)
  case Nil
  then show ?case by simp
next
  case (Cons c pre)
  show ?case
  proof (cases "pre = []")
    case True
    then show ?thesis using assms(3) by (simp add: group_at_def)
  next
    case False
    then obtain d pre' where pre: "pre = d # pre'" by (cases pre) auto
    from Cons.prems(1) pre have "first_alt ANSIBLE_DENY_VARIBLE_LISTS (c # pre @ rest) = None"
      and "first_alt ANSIBLE_DENY_VARIBLE_LISTS (pre @ rest) = None"
      and cb: "clear_before (length pre) (pre @ rest)"
      by auto
    then have "group_at (c # pre @ rest) = None" by (simp add: group_at_def)
    then show ?thesis using Cons.IH [OF cb False] False by simp
  qed
qed

lemma ssh_pass_alt:
  "first_alt ANSIBLE_DENY_VARIBLE_LISTS (''ansible_ssh_pass'' @ post) = Some ''ansible_ssh_pass''"
  by (simp add: ANSIBLE_DENY_VARIBLE_LISTS_def lower_ascii_def)

lemma ssh_pass_tail:
  "first_alt ANSIBLE_DENY_VARIBLE_LISTS (''nsible_ssh_pass'' @ post) = None"
  by (simp add: ANSIBLE_DENY_VARIBLE_LISTS_def lower_ascii_def)

lemma regex_search_at_start:
  "regex_search (''ansible_ssh_pass'' @ post) = Some (''ansible_ssh_pass'' @ take 1 post)"
  using ssh_pass_alt [of post] ssh_pass_tail [of post]
  by (simp add: group_at_def)

lemma strip_lead_space: "isspace c \<Longrightarrow> strip (c # s) = strip s"
  by (simp add: strip_def)

lemma strip_trail_space:
  assumes "isspace c"
  shows "strip (s @ [c]) = strip s"
proof (cases "\<forall>x \<in> set s. isspace x")
  case True
  then have "\<forall>x \<in> set (s @ [c]). isspace x" using assms by simp
  then have a: "dropWhile isspace (s @ [c]) = []" by (simp only: dropWhile_eq_Nil_conv)
  have b: "dropWhile isspace s = []" using True by (simp only: dropWhile_eq_Nil_conv)
  show ?thesis unfolding strip_def a b by simp
next
  case False
  then have a: "dropWhile isspace (s @ [c]) = dropWhile isspace s @ [c]"
    by (auto simp: dropWhile_append)
  show ?thesis unfolding strip_def a using assms by simp
qed

lemma clean_token_lead_space: "isspace c \<Longrightarrow> clean_token (c # s) = clean_token s"
  by (simp add: clean_token_def strip_lead_space)

lemma clean_token_trail_space: "isspace c \<Longrightarrow> clean_token (s @ [c]) = clean_token s"
  by (simp add: clean_token_def strip_trail_space)

lemma clean_token_bare: "clean_token ''ansible_ssh_pass'' = ''ansible_ssh_pass''"
  by (simp add: clean_token_def strip_def startswith_def endswith_def isspace_def)

lemma clean_token_eq: "clean_token ''=ansible_ssh_pass'' = ''ansible_ssh_pass''"
  by (simp add: clean_token_def strip_def startswith_def endswith_def isspace_def)

lemma clean_token_brace: "clean_token ''{ansible_ssh_pass'' = ''ansible_ssh_pass''"
  by (simp add: clean_token_def strip_def startswith_def endswith_def isspace_def)

lemma clean_token_bare_close: "clean_token ''ansible_ssh_pass}'' = ''ansible_ssh_pass''"
  by (simp add: clean_token_def strip_def startswith_def endswith_def isspace_def)

lemma clean_token_eq_close: "clean_token ''=ansible_ssh_pass}'' = ''ansible_ssh_pass''"
  by (simp add: clean_token_def strip_def startswith_def endswith_def isspace_def)

lemma clean_token_brace_close: "clean_token ''{ansible_ssh_pass}'' = ''ansible_ssh_pass''"
  by (simp add: clean_token_def strip_def startswith_def endswith_def isspace_def)

lemma clean_token_trail:
  assumes "trail = [] \<or> (\<exists>c. trail = [c] \<and> closes_token c)"
  shows "clean_token (''ansible_ssh_pass'' @ trail) = ''ansible_ssh_pass''
         \<and> clean_token (''=ansible_ssh_pass'' @ trail) = ''ansible_ssh_pass''
         \<and> clean_token (''{ansible_ssh_pass'' @ trail) = ''ansible_ssh_pass''"
proof -
  consider "trail = []" | c where "trail = [c]" "isspace c" | "trail = ''}''"
    using assms by (auto simp: closes_token_def)
  then show ?thesis
  proof cases
    case 1
    then show ?thesis by (simp add: clean_token_bare clean_token_eq clean_token_brace)
  next
    case 2
    then show ?thesis
      using clean_token_trail_space [of c "''ansible_ssh_pass''"]
        clean_token_trail_space [of c "''=ansible_ssh_pass''"]
        clean_token_trail_space [of c "''{ansible_ssh_pass''"]
      by (simp add: clean_token_bare clean_token_eq clean_token_brace)
  next
    case 3
    then show ?thesis
      by (simp add: clean_token_bare_close clean_token_eq_close clean_token_brace_close)
  qed
qed

lemma clean_token_delimited:
  assumes "lead = [] \<or> (\<exists>c. lead = [c] \<and> opens_token c)"
    and "trail = [] \<or> (\<exists>c. trail = [c] \<and> closes_token c)"
  shows "clean_token (lead @ ''ansible_ssh_pass'' @ trail) = ''ansible_ssh_pass''"
proof -
  consider "lead = []" | c where "lead = [c]" "isspace c" | "lead = ''=''" | "lead = ''{''"
    using assms(1) by (auto simp: opens_token_def)
  then show ?thesis
  proof cases
    case 1
    then show ?thesis using clean_token_trail [OF assms(2)] by simp
  next
    case 2
    then show ?thesis
      using clean_token_trail [OF assms(2)] clean_token_lead_space [of c "''ansible_ssh_pass'' @ trail"]
      by simp
  next
    case 3
    then show ?thesis using clean_token_trail [OF assms(2)] by simp
  next
    case 4
    then show ?thesis using clean_token_trail [OF assms(2)] by simp
  qed
qed

text \<open>
  What the filter does catch: \<open>ansible_ssh_pass\<close> is flagged when, in the text with the
  two keywords neutralised, that occurrence is where a deny-listed name first matches and
  it is delimited: preceded by the start of the text, white space, \<open>=\<close> or \<open>{\<close>, and
  followed by the end of the text, white space or \<open>}\<close>.
\<close>

lemma first_delimited_ssh_pass_is_flagged:
  assumes "neutralise content = pre @ ''ansible_ssh_pass'' @ post"
    and "clear_before (length pre) (neutralise content)"
    and "pre = [] \<or> opens_token (last pre)"
    and "post = [] \<or> closes_token (hd post)"
  shows "check_ansible_variable content = (True, Some ''ansible_ssh_pass'')"
proof -
  let ?lead = "if pre = [] then [] else [last pre]"
  have found: "regex_search (neutralise content) = Some (?lead @ ''ansible_ssh_pass'' @ take 1 post)"
  proof (cases "pre = []")
    case True
    then show ?thesis using assms(1) regex_search_at_start [of post] by simp
  next
    case False
    have "regex_search (pre @ ''ansible_ssh_pass'' @ post)
          = Some (last pre # take (length ''ansible_ssh_pass'' + 1) (''ansible_ssh_pass'' @ post))"
      using assms(1,2) False by (intro regex_search_first_hit ssh_pass_alt) simp_all
    then show ?thesis using False assms(1) by simp
  qed
  have lead: "?lead = [] \<or> (\<exists>c. ?lead = [c] \<and> opens_token c)"
    using assms(3) by auto
  have trail: "take 1 post = [] \<or> (\<exists>c. take 1 post = [c] \<and> closes_token c)"
    using assms(4) by (cases post) auto
  have "clean_token (?lead @ ''ansible_ssh_pass'' @ take 1 post) = ''ansible_ssh_pass''"
    by (rule clean_token_delimited [OF lead trail])
  then show ?thesis
    using found by (simp add: check_ansible_variable_def ANSIBLE_DENY_VARIBLE_LISTS_def)
qed

lemma first_delimited_ssh_pass_example:
  "check_ansible_variable ''vars: {{ ansible_ssh_pass }}'' = (True, Some ''ansible_ssh_pass'')"
proof -
  have n: "neutralise ''vars: {{ ansible_ssh_pass }}'' = ''+++ {{ '' @ ''ansible_ssh_pass'' @ '' }}''"
    by code_simp
  have c: "clear_before (length ''+++ {{ '') (neutralise ''vars: {{ ansible_ssh_pass }}'')"
    by code_simp
  have l: "''+++ {{ '' = [] \<or> opens_token (last ''+++ {{ '')"
    by (simp add: opens_token_def isspace_def)
  have r: "'' }}'' = [] \<or> closes_token (hd '' }}'')"
    by (simp add: closes_token_def isspace_def)
  show ?thesis by (rule first_delimited_ssh_pass_is_flagged [OF n c l r])
qed

text \<open>
  The matched token is compared with the deny list as a whole, so the name inside a
  longer identifier is a different token and is not flagged.
\<close>

lemma longer_identifier_is_not_flagged:
  "''my_ansible_ssh_pass'' = ''my_'' @ ''ansible_ssh_pass''
   \<and> neutralise ''my_ansible_ssh_pass'' = ''my_ansible_ssh_pass''
   \<and> check_ansible_variable ''my_ansible_ssh_pass'' = (False, None)"
  by code_simp

text \<open>
  C3. A text that contains \<open>ansible_ssh_pass\<close> outside the keywords \<open>vars:\<close> and
  \<open>vars_files:\<close> should be flagged with that name. The filter does flag the template
  \<open>{{ ansible_ssh_pass }}\<close> of its own documentation when it stands alone, but it looks
  at the first match of the pattern only: in \<open>my_vars {{ ansible_ssh_pass }}\<close> the search
  stops at the token \<open>_vars\<close>, which is no deny-listed name, and the same template goes
  through unflagged.
\<close>

theorem earlier_match_hides_ssh_pass:
  "check_ansible_variable ''{{ ansible_ssh_pass }}'' = (True, Some ''ansible_ssh_pass'')
   \<and> neutralise ''my_vars {{ ansible_ssh_pass }}'' = ''my_vars {{ ansible_ssh_pass }}''
   \<and> regex_search ''my_vars {{ ansible_ssh_pass }}'' = Some ''_vars ''
   \<and> clean_token ''_vars '' = ''_vars''
   \<and> check_ansible_variable ''my_vars {{ ansible_ssh_pass }}'' = (False, None)"
  by code_simp

subsection \<open>Concrete instances\<close>

lemmas host_defs = BaseHost_init_def Host_init_def set_required_variables_def
  set_become_variables_def set_extra_variables_def set_variable_def exc_bind_def dict_get_def
  dict_index_def dict_get_default_def py_or_def ANSIBLE_CONNECTION_TYPE_def Let_def

lemmas inventory_defs = BaseInventory_init_def parse_sources_def parse_host_def group_add_host_def
  add_host_def add_to_group_def add_group_def get_group_def get_matched_hosts_def get_hosts_def

lemma builtE: "built r \<Longrightarrow> \<exists>x. r = Inr x"
  by (cases r) (simp_all add: built_def)

lemma git_host_built:
  "BaseHost_init ios git_host
   = Inr \<lparr>name = VStr ''git'',
          vars = [(''ansible_port'', VInt 22),
                  (''ansible_connection'', VStr ''paramiko''),
                  (''ansible_ssh_host_key_checking'', VBool False),
                  (''ansible_host'', VStr ''192.168.5.2''),
                  (''ansible_user'', VStr ''root''),
                  (''ansible_ssh_pass'', VStr ''@23123''),
                  (''ansible_become'', VBool True),
                  (''ansible_become_method'', VStr ''sudo''),
                  (''ansible_become_user'', VStr ''root''),
                  (''ansible_become_pass'', VStr ''11''),
                  (''love'', VStr ''yes'')]\<rparr>"
  by (simp add: git_host_def host_defs)

lemma k8s_host_built:
  "BaseHost_init ios k8s_host
   = Inr \<lparr>name = VStr ''k8s'',
          vars = [(''ansible_port'', VInt 22),
                  (''ansible_connection'', VStr ''paramiko''),
                  (''ansible_ssh_host_key_checking'', VBool False),
                  (''ansible_host'', VStr ''192.168.55.2''),
                  (''ansible_user'', VStr ''root''),
                  (''ansible_ssh_pass'', VStr ''123123''),
                  (''ansible_become'', VBool True),
                  (''ansible_become_method'', VStr ''sudo''),
                  (''ansible_become_user'', VStr ''root''),
                  (''ansible_become_pass'', VStr ''@123123''),
                  (''love'', VStr ''yes'')]\<rparr>"
  by (simp add: k8s_host_def host_defs)

lemma example_fields:
  "dict_index git_host ''hostname'' = Inr (VStr ''git'')"
  "dict_get git_host ''groups'' = VList [VStr ''gituwen'', VStr ''test'']"
  "dict_index k8s_host ''hostname'' = Inr (VStr ''k8s'')"
  "dict_get k8s_host ''groups'' = VList [VStr ''gituwen'', VStr ''test'']"
  "dict_get git_host ''hostname'' = VStr ''git''"
  "dict_get k8s_host ''hostname'' = VStr ''k8s''"
  "dict_get git_host ''ip'' = VStr ''192.168.5.2''"
  "dict_get git_host ''port'' = VInt 22"
  by (simp_all add: git_host_def k8s_host_def dict_index_def dict_get_def)

theorem extra_variables_shadow_counterexample:
  "BaseHost_init no_int shadowing_host
   = Inr \<lparr>name = VStr ''git'',
          vars = [(''ansible_port'', VInt 2222),
                  (''ansible_connection'', VStr ''paramiko''),
                  (''ansible_ssh_host_key_checking'', VBool False),
                  (''ansible_host'', VStr ''10.6.6.6''),
                  (''ansible_become'', VBool False)]\<rparr>
   \<and> dict_get shadowing_host ''ip'' = VStr ''192.168.5.2''
   \<and> dict_get shadowing_host ''port'' = VInt 22"
  by (simp add: shadowing_host_def host_defs)

theorem extra_variables_shadow_witness:
  "map_of (vars (projr (BaseHost_init no_int git_host))) ''ansible_host'' = Some (VStr ''192.168.5.2'')
   \<and> map_of (vars (projr (BaseHost_init no_int git_host))) ''ansible_port'' = Some (VInt 22)
   \<and> map_of (vars (projr (BaseHost_init no_int git_host))) ''love'' = Some (VStr ''yes'')"
proof -
  obtain g where g: "BaseHost_init no_int git_host = Inr g"
    using git_host_built by blast
  have ge: "dict_get_default git_host ''vars'' (VDict []) = VDict [(''love'', VStr ''yes'')]"
    by (simp add: git_host_def dict_get_default_def)
  have gd: "distinct (map fst [(''love'', VStr ''yes'')])"
    by simp
  from extra_variables_shadow [OF g ge gd]
  have "map_of (vars g) ''ansible_host'' = Some (VStr ''192.168.5.2'')"
    "map_of (vars g) ''ansible_port'' = Some (VInt 22)"
    "map_of (vars g) ''love'' = Some (VStr ''yes'')"
    by (simp_all add: example_fields)
  then show ?thesis by (simp add: g)
qed

theorem all_resolves_to_every_host_counterexample:
  "map_sum id (\<lambda>ivt. map name (get_matched_hosts ivt ''all''))
     (BaseInventory_init no_int (Some [git_host, git_host]))
   = Inr [VStr ''git'']
   \<and> BaseInventory_init no_int (Some [[(''ip'', VStr ''192.168.5.2''), (''port'', VInt 22)]])
     = Inl (KeyError ''hostname'')"
proof -
  have twice: "map_sum id (\<lambda>ivt. map name (get_matched_hosts ivt ''all''))
                 (BaseInventory_init no_int (Some [git_host, git_host]))
               = Inr [VStr ''git'']"
    by (simp add: inventory_defs git_host_built example_fields exc_bind_def)
  have nameless: "BaseInventory_init no_int (Some [[(''ip'', VStr ''192.168.5.2''), (''port'', VInt 22)]])
                  = Inl (KeyError ''hostname'')"
    by (simp add: inventory_defs host_defs)
  from twice nameless show ?thesis by (rule conjI)
qed

theorem all_resolves_to_every_host_witness:
  "map_sum id (\<lambda>ivt. map name (get_matched_hosts ivt ''all''))
     (BaseInventory_init no_int (Some [git_host, k8s_host]))
   = Inr [VStr ''git'', VStr ''k8s'']
   \<and> map_sum id (\<lambda>ivt. map name (get_matched_hosts ivt ''all''))
       (BaseInventory_init no_int (Some [git_host, k8s_host, git_host]))
     = Inr [VStr ''git'', VStr ''k8s'']"
proof -
  have "built (BaseInventory_init no_int (Some [git_host, k8s_host]))"
    by (simp add: built_def inventory_defs git_host_built k8s_host_built example_fields exc_bind_def)
  then obtain ivt where ivt: "BaseInventory_init no_int (Some [git_host, k8s_host]) = Inr ivt"
    using builtE by blast
  have "built (BaseInventory_init no_int (Some [git_host, k8s_host, git_host]))"
    by (simp add: built_def inventory_defs git_host_built k8s_host_built example_fields exc_bind_def)
  then obtain ivt' where
    ivt': "BaseInventory_init no_int (Some [git_host, k8s_host, git_host]) = Inr ivt'"
    using builtE by blast
  have names: "descriptor_name git_host = VStr ''git''" "descriptor_name k8s_host = VStr ''k8s''"
    by (simp_all add: descriptor_name_def example_fields py_or_def)
  from all_resolves_to_every_host [OF ivt]
  have "map name (get_matched_hosts ivt ''all'') = map descriptor_name (first_of_name [git_host, k8s_host])"
    by blast
  then have two: "map name (get_matched_hosts ivt ''all'') = [VStr ''git'', VStr ''k8s'']"
    by (simp add: names)
  from all_resolves_to_every_host [OF ivt']
  have "map name (get_matched_hosts ivt' ''all'')
        = map descriptor_name (first_of_name [git_host, k8s_host, git_host])"
    by blast
  then have three: "map name (get_matched_hosts ivt' ''all'') = [VStr ''git'', VStr ''k8s'']"
    by (simp add: names)
  from two three show ?thesis by (simp only: ivt ivt' map_sum.simps)
qed

theorem run_module_does_not_scan_witness:
  "dispatched (snd (run_module quiet_engine ''shell'' (VStr leaking_command) (VStr ''all'') fresh_world))
     = [TqmRun \<lparr>ps_hosts = VStr ''all'', ps_module = ''shell'', ps_args = VStr leaking_command\<rparr>]
   \<and> dispatched (snd (snd (websocket_round no_int quiet_engine [(''cmd'', VStr leaking_command)])))
     = [TqmRun \<lparr>ps_hosts = VStr ''test'', ps_module = ''shell'', ps_args = VStr leaking_command\<rparr>]
   \<and> dispatched (snd (run_cmd quiet_engine leaking_command (VStr ''all'') VNone fresh_world)) = []
   \<and> check_ansible_variable leaking_command = (True, Some ''ansible_ssh_pass'')"
proof -
  have c: "check_ansible_variable leaking_command = (True, Some ''ansible_ssh_pass'')"
    by code_simp
  then have f: "fst (check_ansible_variable leaking_command)" by simp
  have "built (BaseInventory_init no_int (Some [hostdat [(''cmd'', VStr leaking_command)]]))"
    by (simp add: built_def inventory_defs host_defs hostdat_def)
  then obtain ivt where
    ivt: "BaseInventory_init no_int (Some [hostdat [(''cmd'', VStr leaking_command)]]) = Inr ivt"
    using builtE by blast
  have l: "\<And>s. play_load quiet_engine s = None" and t: "tqm_new quiet_engine = None"
    by (simp_all add: quiet_engine_def)
  have d: "dict_get_default [(''cmd'', VStr leaking_command)] ''cmd'' (VStr ''ls -lha /tmp'')
           = VStr leaking_command"
    by (simp add: dict_get_default_def)
  have h: "dict_get_default [(''cmd'', VStr leaking_command)] ''hostname'' (VStr ''test'') = VStr ''test''"
    by (simp add: dict_get_default_def)
  have w: "dispatched fresh_world = []" by (simp add: dispatched_def kept_def fresh_world_def)
  from run_module_does_not_scan [OF l t f d ivt]
  have "dispatched (snd (run_module quiet_engine ''shell'' (VStr leaking_command) (VStr ''all'') fresh_world))
          = dispatched fresh_world @ [TqmRun \<lparr>ps_hosts = VStr ''all'', ps_module = ''shell'',
                                             ps_args = VStr leaking_command\<rparr>]"
    and "dispatched (snd (snd (websocket_round no_int quiet_engine [(''cmd'', VStr leaking_command)])))
          = [TqmRun \<lparr>ps_hosts = dict_get_default [(''cmd'', VStr leaking_command)] ''hostname'' (VStr ''test''),
                     ps_module = ''shell'', ps_args = VStr leaking_command\<rparr>]"
    and "dispatched (snd (run_cmd quiet_engine leaking_command (VStr ''all'') VNone fresh_world))
          = dispatched fresh_world"
    by blast+
  then show ?thesis by (simp only: w h c) simp
qed

theorem filter_examples_and_header_witness:
  "\<not> mentions_denied ''- hosts: web\<newline>  '' \<and> \<not> mentions_denied ''\<newline>    http_port: 80''
   \<and> check_ansible_variable (''- hosts: web\<newline>  '' @ ''vars:'' @ ''\<newline>    http_port: 80'') = (False, None)"
proof -
  have a: "\<not> mentions_denied ''- hosts: web\<newline>  ''" by code_simp
  have b: "\<not> mentions_denied ''\<newline>    http_port: 80''" by code_simp
  show ?thesis
    using filter_examples_and_header [of "''- hosts: web\<newline>  ''" "''\<newline>    http_port: 80''"] a b
    by blast
qed

end
